theory Spec2Isabelle
  imports Main "HOL-Library.AList" "HOL-Library.Monad_Syntax"
begin

section \<open>Machine integers and containers\<close>

text \<open>
  The caches mix \<^verbatim>\<open>int\<close> fields (32 bit, signed) with \<^verbatim>\<open>size_t\<close> values
  (64 bit, unsigned). A comparison or division between the two converts the \<^verbatim>\<open>int\<close>
  operand to \<^verbatim>\<open>size_t\<close>, and an assignment back to \<^verbatim>\<open>int\<close> keeps the low 32 bits.
  Both conversions are written out. Counters that the code only increments by one
  (access counts, frequencies, totals) are unbounded here: no statement below runs a
  counter anywhere near \<open>2^31\<close>.

  A \<^verbatim>\<open>std::unordered_map\<close> is an association list with distinct keys:
  \<^verbatim>\<open>find\<close> is \<open>map_of\<close>, \<^verbatim>\<open>m[k] = v\<close> is \<open>AList.update\<close>, \<^verbatim>\<open>erase\<close> is
  \<open>AList.delete\<close>, \<^verbatim>\<open>size()\<close> is \<open>length\<close>. The iteration order of an unordered
  map is unspecified in C++; where the code iterates, the model takes the order of the
  list.

  A result of type \<open>option\<close> is \<open>None\<close> where the C++ dereferences a null pointer or
  indexes a vector out of range (undefined behaviour; in practice a crash).
\<close>

definition size_t_of_int :: "int \<Rightarrow> nat" where
  "size_t_of_int i = nat (i mod 18446744073709551616)"

definition int_of_size_t :: "nat \<Rightarrow> int" where
  "int_of_size_t n =
     (let m = int n mod 4294967296 in if 2147483648 \<le> m then m - 4294967296 else m)"

text \<open>C++ integer division truncates towards zero; \<open>div\<close> on \<open>int\<close> rounds down.\<close>

definition cdiv :: "int \<Rightarrow> int \<Rightarrow> int" where
  "cdiv a b = sgn a * sgn b * (\<bar>a\<bar> div \<bar>b\<bar>)"

section \<open>LruCache (LruCache.h)\<close>

text \<open>
  The recency list of \<^verbatim>\<open>LruCache\<close> is an intrusive doubly linked list whose links the
  code writes one by one, so the nodes live in an explicit store: an address is an index
  into \<open>lru_heap\<close>, a null pointer is \<open>None\<close>, \<^verbatim>\<open>make_shared\<close> appends a node. Nodes are
  reference counted in the source and never freed while something points to them, so the
  store only grows.
\<close>

record ('k, 'v) LruNode =
  node_key :: 'k
  node_value :: 'v
  accessCount :: nat
  prev :: "nat option"
  "next" :: "nat option"

record ('k, 'v) LruCache =
  lru_capacity :: int
  lru_nodeMap :: "('k \<times> nat) list"
  lru_heap :: "('k, 'v) LruNode list"
  dummyHead :: nat
  dummyTail :: nat

definition LruNode_new :: "'k \<Rightarrow> 'v \<Rightarrow> ('k, 'v) LruNode" where
  "LruNode_new k v =
     \<lparr>node_key = k, node_value = v, accessCount = 1, prev = None, next = None\<rparr>"

definition set_next :: "('k, 'v) LruNode list \<Rightarrow> nat \<Rightarrow> nat option \<Rightarrow> ('k, 'v) LruNode list" where
  "set_next h a p = h[a := (h ! a)\<lparr>next := p\<rparr>]"

definition set_prev :: "('k, 'v) LruNode list \<Rightarrow> nat \<Rightarrow> nat option \<Rightarrow> ('k, 'v) LruNode list" where
  "set_prev h a p = h[a := (h ! a)\<lparr>prev := p\<rparr>]"

text \<open>
  The constructor with \<^verbatim>\<open>initializeList\<close>: two sentinels holding \<^verbatim>\<open>Key()\<close> and
  \<^verbatim>\<open>Value()\<close> (the arguments \<open>dk\<close> and \<open>dv\<close>), linked to each other.
\<close>

definition LruCache_new :: "int \<Rightarrow> 'k \<Rightarrow> 'v \<Rightarrow> ('k, 'v) LruCache" where
  "LruCache_new c dk dv =
     \<lparr>lru_capacity = c, lru_nodeMap = [],
      lru_heap = [(LruNode_new dk dv)\<lparr>next := Some 1\<rparr>, (LruNode_new dk dv)\<lparr>prev := Some 0\<rparr>],
      dummyHead = 0, dummyTail = 1\<rparr>"

text \<open>
  \<^verbatim>\<open>node->prev_->next_ = node->next_; node->next_->prev_ = node->prev_;\<close>
\<close>

definition LruCache_removeNode :: "('k, 'v) LruNode list \<Rightarrow> nat \<Rightarrow> ('k, 'v) LruNode list option" where
  "LruCache_removeNode h node =
     do {
       p \<leftarrow> prev (h ! node);
       let h1 = set_next h p (next (h ! node));
       n \<leftarrow> next (h1 ! node);
       Some (set_prev h1 n (prev (h1 ! node)))
     }"

text \<open>
  \<^verbatim>\<open>node->next_ = dummyTail_; dummyTail_->prev_->next_ = node;
  node->prev_ = dummyTail_->prev_; dummyHead_->prev_ = node;\<close>
  The last statement writes the link of the head sentinel, as the source does.
\<close>

definition insertNode :: "('k, 'v) LruCache \<Rightarrow> ('k, 'v) LruNode list \<Rightarrow> nat \<Rightarrow> ('k, 'v) LruNode list option" where
  "insertNode c h node =
     do {
       let h1 = set_next h node (Some (dummyTail c));
       p \<leftarrow> prev (h1 ! dummyTail c);
       let h2 = set_next h1 p (Some node);
       let h3 = set_prev h2 node (prev (h2 ! dummyTail c));
       Some (set_prev h3 (dummyHead c) (Some node))
     }"

definition moveToMostRecent :: "('k, 'v) LruCache \<Rightarrow> nat \<Rightarrow> ('k, 'v) LruCache option" where
  "moveToMostRecent c node =
     do {
       h1 \<leftarrow> LruCache_removeNode (lru_heap c) node;
       h2 \<leftarrow> insertNode c h1 node;
       Some (c\<lparr>lru_heap := h2\<rparr>)
     }"

definition evictLeastRecent :: "('k, 'v) LruCache \<Rightarrow> ('k, 'v) LruCache option" where
  "evictLeastRecent c =
     do {
       leastRecent \<leftarrow> next (lru_heap c ! dummyHead c);
       h1 \<leftarrow> LruCache_removeNode (lru_heap c) leastRecent;
       Some (c\<lparr>lru_heap := h1,
               lru_nodeMap := AList.delete (node_key (h1 ! leastRecent)) (lru_nodeMap c)\<rparr>)
     }"

definition updateExistingNode :: "('k, 'v) LruCache \<Rightarrow> nat \<Rightarrow> 'v \<Rightarrow> ('k, 'v) LruCache option" where
  "updateExistingNode c node v =
     moveToMostRecent
       (c\<lparr>lru_heap := (lru_heap c)[node := (lru_heap c ! node)\<lparr>node_value := v\<rparr>]\<rparr>) node"

definition addNewNode :: "('k, 'v) LruCache \<Rightarrow> 'k \<Rightarrow> 'v \<Rightarrow> ('k, 'v) LruCache option" where
  "addNewNode c k v =
     do {
       c1 \<leftarrow> (if size_t_of_int (lru_capacity c) \<le> length (lru_nodeMap c)
              then evictLeastRecent c else Some c);
       let newNode = length (lru_heap c1);
       h \<leftarrow> insertNode c1 (lru_heap c1 @ [LruNode_new k v]) newNode;
       Some (c1\<lparr>lru_heap := h, lru_nodeMap := AList.update k newNode (lru_nodeMap c1)\<rparr>)
     }"

definition LruCache_put :: "('k, 'v) LruCache \<Rightarrow> 'k \<Rightarrow> 'v \<Rightarrow> ('k, 'v) LruCache option" where
  "LruCache_put c k v =
     (if lru_capacity c \<le> 0 then Some c
      else case map_of (lru_nodeMap c) k of
             Some node \<Rightarrow> updateExistingNode c node v
           | None \<Rightarrow> addNewNode c k v)"

text \<open>
  \<^verbatim>\<open>bool get(Key key, Value& value)\<close>: the second component is \<open>Some\<close> of the value on
  a hit (the flag is true and the reference is written) and \<open>None\<close> on a miss (the flag
  is false and the reference is left alone).
\<close>

definition LruCache_get :: "('k, 'v) LruCache \<Rightarrow> 'k \<Rightarrow> (('k, 'v) LruCache \<times> 'v option) option" where
  "LruCache_get c k =
     (case map_of (lru_nodeMap c) k of
        Some node \<Rightarrow>
          do {
            c1 \<leftarrow> moveToMostRecent c node;
            Some (c1, Some (node_value (lru_heap c1 ! node)))
          }
      | None \<Rightarrow> Some (c, None))"

text \<open>\<^verbatim>\<open>Value get(Key key)\<close>: a value-initialised \<^verbatim>\<open>Value{}\<close> (\<open>dv\<close>) on a miss.\<close>

definition LruCache_get_value :: "'v \<Rightarrow> ('k, 'v) LruCache \<Rightarrow> 'k \<Rightarrow> (('k, 'v) LruCache \<times> 'v) option" where
  "LruCache_get_value dv c k =
     do {
       (c1, r) \<leftarrow> LruCache_get c k;
       Some (c1, case r of Some v \<Rightarrow> v | None \<Rightarrow> dv)
     }"

definition LruCache_remove :: "('k, 'v) LruCache \<Rightarrow> 'k \<Rightarrow> ('k, 'v) LruCache option" where
  "LruCache_remove c k =
     (case map_of (lru_nodeMap c) k of
        Some node \<Rightarrow>
          do {
            h \<leftarrow> LruCache_removeNode (lru_heap c) node;
            Some (c\<lparr>lru_heap := h, lru_nodeMap := AList.delete k (lru_nodeMap c)\<rparr>)
          }
      | None \<Rightarrow> Some c)"

section \<open>LruKCache (LruCache.h)\<close>

text \<open>
  The source declares \<^verbatim>\<open>class LruKCache: public CacheStrategy<Key, Value>\<close>. Its
  constructor initialises \<^verbatim>\<open>LruCache<Key, Value>(capacity)\<close>, and \<^verbatim>\<open>get\<close> and \<^verbatim>\<open>put\<close>
  call \<^verbatim>\<open>LruCache<Key, Value>::get\<close> and \<^verbatim>\<open>LruCache<Key, Value>::put\<close> on the object
  itself, as on a base class (the comment above the class says the optimisation is by
  inheritance). \<^verbatim>\<open>LruCache\<close> is not a base of the class as declared: the class has no
  promotion store, the initialiser and the qualified calls are ill-formed, and no object
  of the class can be made. What is stated about \<^verbatim>\<open>LruKCache\<close> below is therefore about
  the class completed with the promotion store that the spec gives it, and not about
  a program that can be built from the sources as they are.
\<close>









section \<open>HashLruCaches (LruCache.h)\<close>

text \<open>
  \<open>Hash\<close> is \<^verbatim>\<open>std::hash<Key>\<close> and \<open>hw\<close> is what
  \<^verbatim>\<open>std::thread::hardware_concurrency()\<close> returns. The slice size is
  \<^verbatim>\<open>std::ceil(capacity / double(sliceNum_))\<close>, written on integers, which is the same
  number for a positive slice count and a capacity below \<open>2^53\<close>. The constructor's
  loop runs to its argument \<^verbatim>\<open>sliceNum\<close>, not to the field \<^verbatim>\<open>sliceNum_\<close>, so a
  slice count of 0 or less makes no slice at all.
\<close>

record ('k, 'v) HashLruCaches =
  hlru_capacity :: nat
  hlru_sliceNum :: int
  lruSliceCaches :: "('k, 'v) LruCache list"

definition HashLruCaches_new :: "nat \<Rightarrow> nat \<Rightarrow> int \<Rightarrow> 'k \<Rightarrow> 'v \<Rightarrow> ('k, 'v) HashLruCaches" where
  "HashLruCaches_new hw capacity sliceNum dk dv =
     (let n = (if 0 < sliceNum then sliceNum else int_of_size_t hw);
          sliceSize = (capacity + nat n - 1) div nat n
      in \<lparr>hlru_capacity = capacity, hlru_sliceNum = n,
          lruSliceCaches = replicate (nat sliceNum) (LruCache_new (int_of_size_t sliceSize) dk dv)\<rparr>)"

definition sliceIndex :: "('k \<Rightarrow> nat) \<Rightarrow> int \<Rightarrow> 'k \<Rightarrow> nat option" where
  "sliceIndex Hash n key =
     (if size_t_of_int n = 0 then None else Some (Hash key mod size_t_of_int n))"

definition HashLruCaches_put :: "('k \<Rightarrow> nat) \<Rightarrow> ('k, 'v) HashLruCaches \<Rightarrow> 'k \<Rightarrow> 'v \<Rightarrow> ('k, 'v) HashLruCaches option" where
  "HashLruCaches_put Hash s key v =
     do {
       i \<leftarrow> sliceIndex Hash (hlru_sliceNum s) key;
       if i < length (lruSliceCaches s)
       then do {
              c \<leftarrow> LruCache_put (lruSliceCaches s ! i) key v;
              Some (s\<lparr>lruSliceCaches := (lruSliceCaches s)[i := c]\<rparr>)
            }
       else None
     }"

definition HashLruCaches_get :: "('k \<Rightarrow> nat) \<Rightarrow> ('k, 'v) HashLruCaches \<Rightarrow> 'k \<Rightarrow> (('k, 'v) HashLruCaches \<times> 'v option) option" where
  "HashLruCaches_get Hash s key =
     do {
       i \<leftarrow> sliceIndex Hash (hlru_sliceNum s) key;
       if i < length (lruSliceCaches s)
       then do {
              (c, r) \<leftarrow> LruCache_get (lruSliceCaches s ! i) key;
              Some (s\<lparr>lruSliceCaches := (lruSliceCaches s)[i := c]\<rparr>, r)
            }
       else None
     }"

section \<open>LfuCache (LfuCache.h)\<close>

text \<open>
  A \<^verbatim>\<open>FreqList\<close> links its nodes between two sentinels; \<^verbatim>\<open>addNode\<close> links a node before
  the tail sentinel and \<^verbatim>\<open>removeNode\<close> unlinks a linked node and does nothing to a node
  whose links are null. The list is the sequence of its nodes from the head sentinel's
  successor to the tail sentinel's predecessor; a node is an index into \<open>lfu_nodes\<close>.
  \<^verbatim>\<open>getFirstNode\<close> returns \<^verbatim>\<open>head_->next\<close>, which on an empty list is the tail
  sentinel: a node made by \<^verbatim>\<open>Node()\<close>, with \<^verbatim>\<open>freq\<close> 1, null links and a
  default-initialised key (\<open>lfu_defaultKey\<close>; the empty string for a \<^verbatim>\<open>std::string\<close> key).

  \<^verbatim>\<open>freqToFreqList_[f]\<close> on a frequency without a list inserts a null pointer, and every
  caller dereferences the result at once: that is \<open>None\<close>.
\<close>

record ('k, 'v) LfuNode =
  freq :: int
  lfu_key :: 'k
  lfu_value :: 'v

datatype nodeRef = Sentinel | Entry nat

record ('k, 'v) LfuCache =
  lfu_capacity :: int
  minFreq :: int
  maxAverageNum :: int
  curAverageNum :: int
  curTotalNum :: int
  lfu_nodeMap :: "('k \<times> nat) list"
  freqToFreqList :: "(int \<times> nat list) list"
  lfu_nodes :: "('k, 'v) LfuNode list"
  lfu_defaultKey :: 'k

text \<open>The constructor: \<^verbatim>\<open>minFreq_(INT_MAX)\<close>.\<close>

definition LfuCache_new :: "int \<Rightarrow> int \<Rightarrow> 'k \<Rightarrow> ('k, 'v) LfuCache" where
  "LfuCache_new c m dk =
     \<lparr>lfu_capacity = c, minFreq = 2147483647, maxAverageNum = m, curAverageNum = 0,
      curTotalNum = 0, lfu_nodeMap = [], freqToFreqList = [], lfu_nodes = [],
      lfu_defaultKey = dk\<rparr>"

definition getFirstNode :: "nat list \<Rightarrow> nodeRef" where
  "getFirstNode fl = (case fl of [] \<Rightarrow> Sentinel | n # _ \<Rightarrow> Entry n)"

definition nodeRef_freq :: "('k, 'v) LfuCache \<Rightarrow> nodeRef \<Rightarrow> int" where
  "nodeRef_freq s r = (case r of Sentinel \<Rightarrow> 1 | Entry n \<Rightarrow> freq (lfu_nodes s ! n))"

definition nodeRef_key :: "('k, 'v) LfuCache \<Rightarrow> nodeRef \<Rightarrow> 'k" where
  "nodeRef_key s r =
     (case r of Sentinel \<Rightarrow> lfu_defaultKey s | Entry n \<Rightarrow> lfu_key (lfu_nodes s ! n))"

definition removeFromFreqList :: "('k, 'v) LfuCache \<Rightarrow> nodeRef \<Rightarrow> ('k, 'v) LfuCache option" where
  "removeFromFreqList s r =
     do {
       fl \<leftarrow> map_of (freqToFreqList s) (nodeRef_freq s r);
       Some (case r of
               Sentinel \<Rightarrow> s
             | Entry n \<Rightarrow>
                 s\<lparr>freqToFreqList :=
                     AList.update (nodeRef_freq s r) (remove1 n fl) (freqToFreqList s)\<rparr>)
     }"

definition addToFreqList :: "('k, 'v) LfuCache \<Rightarrow> nat \<Rightarrow> ('k, 'v) LfuCache" where
  "addToFreqList s n =
     (let f = freq (lfu_nodes s ! n);
          fl = (case map_of (freqToFreqList s) f of None \<Rightarrow> [] | Some l \<Rightarrow> l)
      in s\<lparr>freqToFreqList := AList.update f (fl @ [n]) (freqToFreqList s)\<rparr>)"

text \<open>\<^verbatim>\<open>updateMinFreq\<close> starts from \<^verbatim>\<open>INT8_MAX\<close>, which is 127.\<close>

definition updateMinFreq :: "('k, 'v) LfuCache \<Rightarrow> ('k, 'v) LfuCache" where
  "updateMinFreq s =
     (let m = fold (\<lambda>(f, fl) m. if fl \<noteq> [] then min m f else m) (freqToFreqList s) 127
      in s\<lparr>minFreq := (if m = 127 then 1 else m)\<rparr>)"

text \<open>
  The loop of \<^verbatim>\<open>handleOverMaxAverageNum\<close> over \<^verbatim>\<open>nodeMap_\<close>, in the order of the list.
  The code visits the entries in the order of its \<^verbatim>\<open>std::unordered_map\<close>; with two or
  more entries another order of visits gives another order of the entries within a
  bucket. The statements below that run an aging pass have one entry.
\<close>

fun rebucket :: "('k \<times> nat) list \<Rightarrow> ('k, 'v) LfuCache \<Rightarrow> ('k, 'v) LfuCache option" where
  "rebucket [] s = Some s"
| "rebucket ((k, n) # rest) s =
     do {
       s1 \<leftarrow> removeFromFreqList s (Entry n);
       let f = freq (lfu_nodes s1 ! n) - cdiv (maxAverageNum s1) 2;
       let f' = (if f < 1 then 1 else f);
       let s2 = s1\<lparr>lfu_nodes := (lfu_nodes s1)[n := (lfu_nodes s1 ! n)\<lparr>freq := f'\<rparr>]\<rparr>;
       rebucket rest (addToFreqList s2 n)
     }"

definition handleOverMaxAverageNum :: "('k, 'v) LfuCache \<Rightarrow> ('k, 'v) LfuCache option" where
  "handleOverMaxAverageNum s =
     (if lfu_nodeMap s = [] then Some s
      else do { s1 \<leftarrow> rebucket (lfu_nodeMap s) s; Some (updateMinFreq s1) })"

definition addFreqNum :: "('k, 'v) LfuCache \<Rightarrow> ('k, 'v) LfuCache option" where
  "addFreqNum s =
     (let t = curTotalNum s + 1;
          a = (if lfu_nodeMap s = [] then 0
               else int_of_size_t (size_t_of_int t div length (lfu_nodeMap s)));
          s1 = s\<lparr>curTotalNum := t, curAverageNum := a\<rparr>
      in if maxAverageNum s1 < a then handleOverMaxAverageNum s1 else Some s1)"

definition decreaseFreqNum :: "('k, 'v) LfuCache \<Rightarrow> int \<Rightarrow> ('k, 'v) LfuCache" where
  "decreaseFreqNum s num =
     (let t = curTotalNum s - num;
          a = (if lfu_nodeMap s = [] then 0
               else int_of_size_t
                      (size_t_of_int
                         (curAverageNum s - int (size_t_of_int t div length (lfu_nodeMap s)))))
      in s\<lparr>curTotalNum := t, curAverageNum := a\<rparr>)"

definition getInternal :: "('k, 'v) LfuCache \<Rightarrow> nat \<Rightarrow> (('k, 'v) LfuCache \<times> 'v) option" where
  "getInternal s n =
     do {
       let v = lfu_value (lfu_nodes s ! n);
       s1 \<leftarrow> removeFromFreqList s (Entry n);
       let f = freq (lfu_nodes s1 ! n) + 1;
       let s2 = addToFreqList
                  (s1\<lparr>lfu_nodes := (lfu_nodes s1)[n := (lfu_nodes s1 ! n)\<lparr>freq := f\<rparr>]\<rparr>) n;
       s3 \<leftarrow> (if f - 1 = minFreq s2
              then do {
                     fl \<leftarrow> map_of (freqToFreqList s2) (f - 1);
                     Some (if fl = [] then s2\<lparr>minFreq := minFreq s2 + 1\<rparr> else s2)
                   }
              else Some s2);
       s4 \<leftarrow> addFreqNum s3;
       Some (s4, v)
     }"

definition kickOut :: "('k, 'v) LfuCache \<Rightarrow> ('k, 'v) LfuCache option" where
  "kickOut s =
     do {
       fl \<leftarrow> map_of (freqToFreqList s) (minFreq s);
       let node = getFirstNode fl;
       s1 \<leftarrow> removeFromFreqList s node;
       let s2 = s1\<lparr>lfu_nodeMap := AList.delete (nodeRef_key s1 node) (lfu_nodeMap s1)\<rparr>;
       Some (decreaseFreqNum s2 (nodeRef_freq s2 node))
     }"

definition putInternal :: "('k, 'v) LfuCache \<Rightarrow> 'k \<Rightarrow> 'v \<Rightarrow> ('k, 'v) LfuCache option" where
  "putInternal s k v =
     do {
       s1 \<leftarrow> (if length (lfu_nodeMap s) = size_t_of_int (lfu_capacity s)
              then kickOut s else Some s);
       let node = length (lfu_nodes s1);
       let s2 = s1\<lparr>lfu_nodes := lfu_nodes s1 @ [\<lparr>freq = 1, lfu_key = k, lfu_value = v\<rparr>],
                   lfu_nodeMap := AList.update k node (lfu_nodeMap s1)\<rparr>;
       s3 \<leftarrow> addFreqNum (addToFreqList s2 node);
       Some (s3\<lparr>minFreq := min (minFreq s3) 1\<rparr>)
     }"

definition LfuCache_put :: "('k, 'v) LfuCache \<Rightarrow> 'k \<Rightarrow> 'v \<Rightarrow> ('k, 'v) LfuCache option" where
  "LfuCache_put s k v =
     (if lfu_capacity s = 0 then Some s
      else case map_of (lfu_nodeMap s) k of
             Some n \<Rightarrow>
               map_option fst
                 (getInternal
                    (s\<lparr>lfu_nodes := (lfu_nodes s)[n := (lfu_nodes s ! n)\<lparr>lfu_value := v\<rparr>]\<rparr>) n)
           | None \<Rightarrow> putInternal s k v)"

definition LfuCache_get :: "('k, 'v) LfuCache \<Rightarrow> 'k \<Rightarrow> (('k, 'v) LfuCache \<times> 'v option) option" where
  "LfuCache_get s k =
     (case map_of (lfu_nodeMap s) k of
        Some n \<Rightarrow> do { (s1, v) \<leftarrow> getInternal s n; Some (s1, Some v) }
      | None \<Rightarrow> Some (s, None))"

definition purge :: "('k, 'v) LfuCache \<Rightarrow> ('k, 'v) LfuCache" where
  "purge s = s\<lparr>lfu_nodeMap := [], freqToFreqList := []\<rparr>"

text \<open>A client that reads the same key \<open>n\<close> times in a row.\<close>

fun LfuCache_gets :: "nat \<Rightarrow> ('k, 'v) LfuCache \<Rightarrow> 'k \<Rightarrow> ('k, 'v) LfuCache option" where
  "LfuCache_gets 0 s k = Some s"
| "LfuCache_gets (Suc n) s k =
     do { s1 \<leftarrow> LfuCache_gets n s k; (s2, r) \<leftarrow> LfuCache_get s1 k; Some s2 }"

section \<open>HashLfuCache (LfuCache.h)\<close>

record ('k, 'v) HashLfuCache =
  hlfu_capacity :: nat
  hlfu_sliceNum :: int
  lfuSliceCaches :: "('k, 'v) LfuCache list"

definition HashLfuCache_new :: "nat \<Rightarrow> nat \<Rightarrow> int \<Rightarrow> int \<Rightarrow> 'k \<Rightarrow> ('k, 'v) HashLfuCache" where
  "HashLfuCache_new hw capacity sliceNum maxAvg dk =
     (let n = (if 0 < sliceNum then sliceNum else int_of_size_t hw);
          sliceSize = (capacity + nat n - 1) div nat n
      in \<lparr>hlfu_capacity = capacity, hlfu_sliceNum = n,
          lfuSliceCaches =
            replicate (nat sliceNum) (LfuCache_new (int_of_size_t sliceSize) maxAvg dk)\<rparr>)"

text \<open>
  \<^verbatim>\<open>HashLfuCache::put\<close> is
  \<^verbatim>\<open>return lfuSliceCaches_[sliceIndex]->get(key, value);\<close>
  it calls the slice's \<^verbatim>\<open>get\<close> and drops the result.
\<close>

definition HashLfuCache_put :: "('k \<Rightarrow> nat) \<Rightarrow> ('k, 'v) HashLfuCache \<Rightarrow> 'k \<Rightarrow> 'v \<Rightarrow> ('k, 'v) HashLfuCache option" where
  "HashLfuCache_put Hash s key v =
     do {
       i \<leftarrow> sliceIndex Hash (hlfu_sliceNum s) key;
       if i < length (lfuSliceCaches s)
       then do {
              (c, r) \<leftarrow> LfuCache_get (lfuSliceCaches s ! i) key;
              Some (s\<lparr>lfuSliceCaches := (lfuSliceCaches s)[i := c]\<rparr>)
            }
       else None
     }"

text \<open>
  Modelled from the spec: \<^verbatim>\<open>HashLfuCache\<close> declares no two-argument \<^verbatim>\<open>get\<close>, although
  its one-argument \<^verbatim>\<open>get\<close> calls one. The spec gives \<^verbatim>\<open>HashLfuCache\<close> the routing of
  \<^verbatim>\<open>HashLruCaches\<close>: the call goes to the slice that the key's hash selects.
\<close>

definition HashLfuCache_get :: "('k \<Rightarrow> nat) \<Rightarrow> ('k, 'v) HashLfuCache \<Rightarrow> 'k \<Rightarrow> (('k, 'v) HashLfuCache \<times> 'v option) option" where
  "HashLfuCache_get Hash s key =
     do {
       i \<leftarrow> sliceIndex Hash (hlfu_sliceNum s) key;
       if i < length (lfuSliceCaches s)
       then do {
              (c, r) \<leftarrow> LfuCache_get (lfuSliceCaches s ! i) key;
              Some (s\<lparr>lfuSliceCaches := (lfuSliceCaches s)[i := c]\<rparr>, r)
            }
       else None
     }"

section \<open>ArcLruPart (ArcCache/ArcLruPart.h)\<close>

text \<open>
  Modelled from the spec: \<^verbatim>\<open>ArcCacheNode.h\<close>, which declares \<^verbatim>\<open>ArcNode\<close>, is not among
  the sources. A node holds a key, a value and an access count next to its two links, and
  the spec's data model starts the count of a fresh entry at 1.

  Both lists of \<^verbatim>\<open>ArcLruPart\<close> are doubly linked between two sentinels and every
  operation on them links or unlinks one node at a known place, so each list is the
  sequence of its nodes, the successor of the head sentinel first. A node is an index
  into \<open>alru_nodes\<close>. The capacities are \<^verbatim>\<open>size_t\<close>: natural numbers here.
\<close>

record ('k, 'v) ArcNode =
  arc_key :: 'k
  arc_value :: 'v
  arc_accessCount :: nat

record ('k, 'v) ArcLruPart =
  alru_capacity :: nat
  alru_ghostCapacity :: nat
  alru_transformThreshold :: nat
  alru_mainCache :: "('k \<times> nat) list"
  alru_ghostCache :: "('k \<times> nat) list"
  alru_mainList :: "nat list"
  alru_ghostList :: "nat list"
  alru_nodes :: "('k, 'v) ArcNode list"

definition ArcLruPart_new :: "nat \<Rightarrow> nat \<Rightarrow> ('k, 'v) ArcLruPart" where
  "ArcLruPart_new capacity transformThreshold =
     \<lparr>alru_capacity = capacity, alru_ghostCapacity = capacity,
      alru_transformThreshold = transformThreshold, alru_mainCache = [], alru_ghostCache = [],
      alru_mainList = [], alru_ghostList = [], alru_nodes = []\<rparr>"

text \<open>\<^verbatim>\<open>removeOldestGhost\<close> takes the node before the ghost tail sentinel.\<close>

definition alru_removeOldestGhost :: "('k, 'v) ArcLruPart \<Rightarrow> ('k, 'v) ArcLruPart" where
  "alru_removeOldestGhost s =
     (if alru_ghostList s = [] then s
      else let oldestGhost = last (alru_ghostList s)
           in s\<lparr>alru_ghostList := butlast (alru_ghostList s),
                alru_ghostCache :=
                  AList.delete (arc_key (alru_nodes s ! oldestGhost)) (alru_ghostCache s)\<rparr>)"

text \<open>\<^verbatim>\<open>addToGhost\<close> resets the access count and links the node after the head sentinel.\<close>

definition alru_addToGhost :: "('k, 'v) ArcLruPart \<Rightarrow> nat \<Rightarrow> ('k, 'v) ArcLruPart" where
  "alru_addToGhost s node =
     (let ns = (alru_nodes s)[node := (alru_nodes s ! node)\<lparr>arc_accessCount := 1\<rparr>]
      in s\<lparr>alru_nodes := ns, alru_ghostList := node # alru_ghostList s,
           alru_ghostCache := AList.update (arc_key (ns ! node)) node (alru_ghostCache s)\<rparr>)"

definition alru_evictLeastRecent :: "('k, 'v) ArcLruPart \<Rightarrow> ('k, 'v) ArcLruPart" where
  "alru_evictLeastRecent s =
     (if alru_mainList s = [] then s
      else let leastRecent = last (alru_mainList s);
               s1 = s\<lparr>alru_mainList := butlast (alru_mainList s)\<rparr>;
               s2 = (if alru_ghostCapacity s1 \<le> length (alru_ghostCache s1)
                     then alru_removeOldestGhost s1 else s1);
               s3 = alru_addToGhost s2 leastRecent
           in s3\<lparr>alru_mainCache :=
                   AList.delete (arc_key (alru_nodes s3 ! leastRecent)) (alru_mainCache s3)\<rparr>)"

definition alru_moveToFront :: "('k, 'v) ArcLruPart \<Rightarrow> nat \<Rightarrow> ('k, 'v) ArcLruPart" where
  "alru_moveToFront s node = s\<lparr>alru_mainList := node # remove1 node (alru_mainList s)\<rparr>"

definition alru_updateExistingNode :: "('k, 'v) ArcLruPart \<Rightarrow> nat \<Rightarrow> 'v \<Rightarrow> ('k, 'v) ArcLruPart" where
  "alru_updateExistingNode s node v =
     alru_moveToFront
       (s\<lparr>alru_nodes := (alru_nodes s)[node := (alru_nodes s ! node)\<lparr>arc_value := v\<rparr>]\<rparr>) node"

definition alru_addNewNode :: "('k, 'v) ArcLruPart \<Rightarrow> 'k \<Rightarrow> 'v \<Rightarrow> ('k, 'v) ArcLruPart" where
  "alru_addNewNode s key v =
     (let s1 = (if alru_capacity s \<le> length (alru_mainCache s)
                then alru_evictLeastRecent s else s);
          newNode = length (alru_nodes s1)
      in s1\<lparr>alru_nodes := alru_nodes s1 @ [\<lparr>arc_key = key, arc_value = v, arc_accessCount = 1\<rparr>],
            alru_mainCache := AList.update key newNode (alru_mainCache s1),
            alru_mainList := newNode # alru_mainList s1\<rparr>)"

text \<open>\<^verbatim>\<open>bool put(Key key, Value value)\<close>: the new state and the returned flag.\<close>

definition ArcLruPart_put :: "('k, 'v) ArcLruPart \<Rightarrow> 'k \<Rightarrow> 'v \<Rightarrow> ('k, 'v) ArcLruPart \<times> bool" where
  "ArcLruPart_put s key v =
     (if alru_capacity s = 0 then (s, False)
      else case map_of (alru_mainCache s) key of
             Some node \<Rightarrow> (alru_updateExistingNode s node v, True)
           | None \<Rightarrow> (alru_addNewNode s key v, True))"

definition alru_updateNodeAccess :: "('k, 'v) ArcLruPart \<Rightarrow> nat \<Rightarrow> ('k, 'v) ArcLruPart \<times> bool" where
  "alru_updateNodeAccess s node =
     (let s1 = alru_moveToFront s node;
          c = arc_accessCount (alru_nodes s1 ! node) + 1
      in (s1\<lparr>alru_nodes := (alru_nodes s1)[node := (alru_nodes s1 ! node)\<lparr>arc_accessCount := c\<rparr>]\<rparr>,
          alru_transformThreshold s1 \<le> c))"

text \<open>
  \<^verbatim>\<open>bool get(Key key, Value& value, bool& shouldTransform)\<close>: the new state, the value
  on a hit, and the flag \<^verbatim>\<open>shouldTransform\<close>, which a miss leaves as the caller set it
  (\<open>st\<close>).
\<close>

definition ArcLruPart_get :: "('k, 'v) ArcLruPart \<Rightarrow> 'k \<Rightarrow> bool \<Rightarrow> ('k, 'v) ArcLruPart \<times> 'v option \<times> bool" where
  "ArcLruPart_get s key st =
     (case map_of (alru_mainCache s) key of
        Some node \<Rightarrow>
          (let (s1, shouldTransform) = alru_updateNodeAccess s node
           in (s1, Some (arc_value (alru_nodes s1 ! node)), shouldTransform))
      | None \<Rightarrow> (s, None, st))"

definition inLruMainCache :: "('k, 'v) ArcLruPart \<Rightarrow> 'k \<Rightarrow> bool" where
  "inLruMainCache s key = (map_of (alru_mainCache s) key \<noteq> None)"

definition ArcLruPart_checkGhost :: "('k, 'v) ArcLruPart \<Rightarrow> 'k \<Rightarrow> ('k, 'v) ArcLruPart \<times> bool" where
  "ArcLruPart_checkGhost s key =
     (case map_of (alru_ghostCache s) key of
        Some node \<Rightarrow>
          (s\<lparr>alru_ghostList := remove1 node (alru_ghostList s),
             alru_ghostCache := AList.delete key (alru_ghostCache s)\<rparr>, True)
      | None \<Rightarrow> (s, False))"

definition ArcLruPart_increaseCapacity :: "('k, 'v) ArcLruPart \<Rightarrow> ('k, 'v) ArcLruPart" where
  "ArcLruPart_increaseCapacity s = s\<lparr>alru_capacity := alru_capacity s + 1\<rparr>"

definition ArcLruPart_decreaseCapacity :: "('k, 'v) ArcLruPart \<Rightarrow> ('k, 'v) ArcLruPart \<times> bool" where
  "ArcLruPart_decreaseCapacity s =
     (if alru_capacity s = 0 then (s, False)
      else let s1 = (if length (alru_mainCache s) = alru_capacity s
                     then alru_evictLeastRecent s else s)
           in (s1\<lparr>alru_capacity := alru_capacity s1 - 1\<rparr>, True))"

section \<open>ArcLfuPart (ArcCache/ArcLfuPart.h)\<close>

text \<open>
  \<^verbatim>\<open>freqMap_\<close> is a \<^verbatim>\<open>std::map\<close> from frequency to a \<^verbatim>\<open>std::list\<close> of nodes: an
  association list of node sequences, whose \<^verbatim>\<open>begin()\<close> is the entry with the least
  key. The ghost list is linked as in \<^verbatim>\<open>ArcLruPart\<close>, with new nodes before the tail
  sentinel and the oldest taken after the head sentinel.
\<close>

record ('k, 'v) ArcLfuPart =
  alfu_capacity :: nat
  alfu_ghostCapacity :: nat
  alfu_transformThreshold :: nat
  alfu_minFreq :: nat
  alfu_mainCache :: "('k \<times> nat) list"
  alfu_ghostCache :: "('k \<times> nat) list"
  alfu_freqMap :: "(nat \<times> nat list) list"
  alfu_ghostList :: "nat list"
  alfu_nodes :: "('k, 'v) ArcNode list"

definition ArcLfuPart_new :: "nat \<Rightarrow> nat \<Rightarrow> ('k, 'v) ArcLfuPart" where
  "ArcLfuPart_new capacity transformThreshold =
     \<lparr>alfu_capacity = capacity, alfu_ghostCapacity = capacity,
      alfu_transformThreshold = transformThreshold, alfu_minFreq = 0, alfu_mainCache = [],
      alfu_ghostCache = [], alfu_freqMap = [], alfu_ghostList = [], alfu_nodes = []\<rparr>"

definition freqMap_list :: "(nat \<times> nat list) list \<Rightarrow> nat \<Rightarrow> nat list" where
  "freqMap_list fm f = (case map_of fm f of None \<Rightarrow> [] | Some l \<Rightarrow> l)"

definition freqMap_begin :: "(nat \<times> nat list) list \<Rightarrow> nat" where
  "freqMap_begin fm = fold min (map fst (tl fm)) (fst (hd fm))"

definition alfu_removeOldestGhost :: "('k, 'v) ArcLfuPart \<Rightarrow> ('k, 'v) ArcLfuPart" where
  "alfu_removeOldestGhost s =
     (case alfu_ghostList s of
        [] \<Rightarrow> s
      | oldestGhost # rest \<Rightarrow>
          s\<lparr>alfu_ghostList := rest,
            alfu_ghostCache :=
              AList.delete (arc_key (alfu_nodes s ! oldestGhost)) (alfu_ghostCache s)\<rparr>)"

definition alfu_addToGhost :: "('k, 'v) ArcLfuPart \<Rightarrow> nat \<Rightarrow> ('k, 'v) ArcLfuPart" where
  "alfu_addToGhost s node =
     (let ns = (alfu_nodes s)[node := (alfu_nodes s ! node)\<lparr>arc_accessCount := 1\<rparr>]
      in s\<lparr>alfu_nodes := ns, alfu_ghostList := alfu_ghostList s @ [node],
           alfu_ghostCache := AList.update (arc_key (ns ! node)) node (alfu_ghostCache s)\<rparr>)"

text \<open>
  \<^verbatim>\<open>evictLeastFrequent\<close>. \<^verbatim>\<open>freqMap_[minFreq_]\<close> creates an empty list where the map
  has none; the function then returns with that list left in the map.
\<close>

definition evictLeastFrequent :: "('k, 'v) ArcLfuPart \<Rightarrow> ('k, 'v) ArcLfuPart" where
  "evictLeastFrequent s =
     (if alfu_freqMap s = [] then s
      else case freqMap_list (alfu_freqMap s) (alfu_minFreq s) of
             [] \<Rightarrow> s\<lparr>alfu_freqMap := AList.update (alfu_minFreq s) [] (alfu_freqMap s)\<rparr>
           | leastNode # rest \<Rightarrow>
               let fm = (if rest = [] then AList.delete (alfu_minFreq s) (alfu_freqMap s)
                         else AList.update (alfu_minFreq s) rest (alfu_freqMap s));
                   mf = (if rest = [] \<and> fm \<noteq> [] then freqMap_begin fm else alfu_minFreq s);
                   s1 = s\<lparr>alfu_freqMap := fm, alfu_minFreq := mf\<rparr>;
                   s2 = (if alfu_ghostCapacity s1 \<le> length (alfu_ghostCache s1)
                         then alfu_removeOldestGhost s1 else s1);
                   s3 = alfu_addToGhost s2 leastNode
               in s3\<lparr>alfu_mainCache :=
                       AList.delete (arc_key (alfu_nodes s3 ! leastNode)) (alfu_mainCache s3)\<rparr>)"

definition updateNodeFrequency :: "('k, 'v) ArcLfuPart \<Rightarrow> nat \<Rightarrow> ('k, 'v) ArcLfuPart" where
  "updateNodeFrequency s node =
     (let oldFreq = arc_accessCount (alfu_nodes s ! node);
          newFreq = oldFreq + 1;
          ns = (alfu_nodes s)[node := (alfu_nodes s ! node)\<lparr>arc_accessCount := newFreq\<rparr>];
          oldList = removeAll node (freqMap_list (alfu_freqMap s) oldFreq);
          fm1 = (if oldList = [] then AList.delete oldFreq (alfu_freqMap s)
                 else AList.update oldFreq oldList (alfu_freqMap s));
          mf = (if oldList = [] \<and> oldFreq = alfu_minFreq s then newFreq else alfu_minFreq s);
          fm2 = AList.update newFreq (freqMap_list fm1 newFreq @ [node]) fm1
      in s\<lparr>alfu_nodes := ns, alfu_freqMap := fm2, alfu_minFreq := mf\<rparr>)"

definition alfu_updateExistingNode :: "('k, 'v) ArcLfuPart \<Rightarrow> nat \<Rightarrow> 'v \<Rightarrow> ('k, 'v) ArcLfuPart" where
  "alfu_updateExistingNode s node v =
     updateNodeFrequency
       (s\<lparr>alfu_nodes := (alfu_nodes s)[node := (alfu_nodes s ! node)\<lparr>arc_value := v\<rparr>]\<rparr>) node"

definition alfu_addNewNode :: "('k, 'v) ArcLfuPart \<Rightarrow> 'k \<Rightarrow> 'v \<Rightarrow> ('k, 'v) ArcLfuPart" where
  "alfu_addNewNode s key v =
     (let s1 = (if alfu_capacity s \<le> length (alfu_mainCache s)
                then evictLeastFrequent s else s);
          newNode = length (alfu_nodes s1)
      in s1\<lparr>alfu_nodes := alfu_nodes s1 @ [\<lparr>arc_key = key, arc_value = v, arc_accessCount = 1\<rparr>],
            alfu_mainCache := AList.update key newNode (alfu_mainCache s1),
            alfu_freqMap := AList.update 1 (freqMap_list (alfu_freqMap s1) 1 @ [newNode])
                              (alfu_freqMap s1),
            alfu_minFreq := 1\<rparr>)"

definition ArcLfuPart_put :: "('k, 'v) ArcLfuPart \<Rightarrow> 'k \<Rightarrow> 'v \<Rightarrow> ('k, 'v) ArcLfuPart \<times> bool" where
  "ArcLfuPart_put s key v =
     (if alfu_capacity s = 0 then (s, False)
      else case map_of (alfu_mainCache s) key of
             Some node \<Rightarrow> (alfu_updateExistingNode s node v, True)
           | None \<Rightarrow> (alfu_addNewNode s key v, True))"

definition ArcLfuPart_get :: "('k, 'v) ArcLfuPart \<Rightarrow> 'k \<Rightarrow> ('k, 'v) ArcLfuPart \<times> 'v option" where
  "ArcLfuPart_get s key =
     (case map_of (alfu_mainCache s) key of
        Some node \<Rightarrow>
          (let s1 = updateNodeFrequency s node
           in (s1, Some (arc_value (alfu_nodes s1 ! node))))
      | None \<Rightarrow> (s, None))"

definition inLfuMainCache :: "('k, 'v) ArcLfuPart \<Rightarrow> 'k \<Rightarrow> bool" where
  "inLfuMainCache s key = (map_of (alfu_mainCache s) key \<noteq> None)"

definition ArcLfuPart_checkGhost :: "('k, 'v) ArcLfuPart \<Rightarrow> 'k \<Rightarrow> ('k, 'v) ArcLfuPart \<times> bool" where
  "ArcLfuPart_checkGhost s key =
     (case map_of (alfu_ghostCache s) key of
        Some node \<Rightarrow>
          (s\<lparr>alfu_ghostList := remove1 node (alfu_ghostList s),
             alfu_ghostCache := AList.delete key (alfu_ghostCache s)\<rparr>, True)
      | None \<Rightarrow> (s, False))"

definition ArcLfuPart_increaseCapacity :: "('k, 'v) ArcLfuPart \<Rightarrow> ('k, 'v) ArcLfuPart" where
  "ArcLfuPart_increaseCapacity s = s\<lparr>alfu_capacity := alfu_capacity s + 1\<rparr>"

text \<open>\<^verbatim>\<open>if (capacity_ <= 0) return true;\<close>\<close>

definition ArcLfuPart_decreaseCapacity :: "('k, 'v) ArcLfuPart \<Rightarrow> ('k, 'v) ArcLfuPart \<times> bool" where
  "ArcLfuPart_decreaseCapacity s =
     (if alfu_capacity s = 0 then (s, True)
      else let s1 = (if length (alfu_mainCache s) = alfu_capacity s
                     then evictLeastFrequent s else s)
           in (s1\<lparr>alfu_capacity := alfu_capacity s1 - 1\<rparr>, True))"

section \<open>ArcCache (ArcCache/ArcCache.h)\<close>

record ('k, 'v) ArcCache =
  arc_capacity :: nat
  arc_transformThreshold :: nat
  lruPart :: "('k, 'v) ArcLruPart"
  lfuPart :: "('k, 'v) ArcLfuPart"

definition ArcCache_new :: "nat \<Rightarrow> nat \<Rightarrow> ('k, 'v) ArcCache" where
  "ArcCache_new capacity transformThreshold =
     \<lparr>arc_capacity = capacity, arc_transformThreshold = transformThreshold,
      lruPart = ArcLruPart_new capacity transformThreshold,
      lfuPart = ArcLfuPart_new capacity transformThreshold\<rparr>"

definition checkGhostCaches :: "('k, 'v) ArcCache \<Rightarrow> 'k \<Rightarrow> ('k, 'v) ArcCache \<times> bool" where
  "checkGhostCaches s key =
     (let (lru1, inLruGhost) = ArcLruPart_checkGhost (lruPart s) key
      in if inLruGhost
         then let (lfu1, decreased) = ArcLfuPart_decreaseCapacity (lfuPart s)
              in (s\<lparr>lruPart := (if decreased then ArcLruPart_increaseCapacity lru1 else lru1),
                    lfuPart := lfu1\<rparr>, True)
         else let (lfu1, inLfuGhost) = ArcLfuPart_checkGhost (lfuPart s) key
              in if inLfuGhost
                 then let (lru2, decreased) = ArcLruPart_decreaseCapacity lru1
                      in (s\<lparr>lruPart := lru2,
                            lfuPart := (if decreased then ArcLfuPart_increaseCapacity lfu1
                                        else lfu1)\<rparr>, True)
                 else (s\<lparr>lruPart := lru1, lfuPart := lfu1\<rparr>, False))"

definition ArcCache_put :: "('k, 'v) ArcCache \<Rightarrow> 'k \<Rightarrow> 'v \<Rightarrow> ('k, 'v) ArcCache" where
  "ArcCache_put s key v =
     (let (s1, inGhost) = checkGhostCaches s key
      in if \<not> inGhost
         then if inLfuMainCache (lfuPart s1) key
              then s1\<lparr>lfuPart := fst (ArcLfuPart_put (lfuPart s1) key v)\<rparr>
              else s1\<lparr>lruPart := fst (ArcLruPart_put (lruPart s1) key v)\<rparr>
         else s1\<lparr>lruPart := fst (ArcLruPart_put (lruPart s1) key v)\<rparr>)"

definition ArcCache_get :: "('k, 'v) ArcCache \<Rightarrow> 'k \<Rightarrow> ('k, 'v) ArcCache \<times> 'v option" where
  "ArcCache_get s key =
     (let (s1, inGhost) = checkGhostCaches s key;
          (lru1, r, shouldTransform) = ArcLruPart_get (lruPart s1) key False
      in case r of
           Some v \<Rightarrow>
             (s1\<lparr>lruPart := lru1,
                 lfuPart := (if shouldTransform then fst (ArcLfuPart_put (lfuPart s1) key v)
                             else lfuPart s1)\<rparr>, Some v)
         | None \<Rightarrow>
             (let (lfu1, r') = ArcLfuPart_get (lfuPart s1) key
              in (s1\<lparr>lruPart := lru1, lfuPart := lfu1\<rparr>, r')))"

text \<open>A client's operations on an \<^verbatim>\<open>ArcCache\<close>, run in order.\<close>

datatype ('k, 'v) arc_op = ArcPut 'k 'v | ArcGet 'k

fun ArcCache_run :: "('k, 'v) ArcCache \<Rightarrow> ('k, 'v) arc_op list \<Rightarrow> ('k, 'v) ArcCache" where
  "ArcCache_run s [] = s"
| "ArcCache_run s (ArcPut k v # ops) = ArcCache_run (ArcCache_put s k v) ops"
| "ArcCache_run s (ArcGet k # ops) = ArcCache_run (fst (ArcCache_get s k)) ops"

section \<open>Observations and auxiliary states\<close>

text \<open>Whether a key has a record in a partition's ghost map (\<^verbatim>\<open>ghostCache_\<close>).\<close>

definition inLruGhost :: "('k, 'v) ArcLruPart \<Rightarrow> 'k \<Rightarrow> bool" where
  "inLruGhost s key = (map_of (alru_ghostCache s) key \<noteq> None)"

definition inLfuGhost :: "('k, 'v) ArcLfuPart \<Rightarrow> 'k \<Rightarrow> bool" where
  "inLfuGhost s key = (map_of (alfu_ghostCache s) key \<noteq> None)"

text \<open>
  The shape of an \<^verbatim>\<open>LruCache\<close> that its operations keep. The sentinels are the nodes 0
  and 1, and the tail sentinel points back to the head sentinel: \<^verbatim>\<open>insertNode\<close> links
  every node between the two sentinels and never moves \<^verbatim>\<open>dummyTail_->prev_\<close>. So every
  node of the key map has the head sentinel before it and the tail sentinel after it, and
  \<^verbatim>\<open>dummyHead_->next_\<close> is the node linked last, or the tail sentinel after a node has
  been unlinked. The key map holds distinct keys and distinct nodes, each node under its
  own key, and no more entries than the capacity (as a \<^verbatim>\<open>size_t\<close>).
\<close>

definition lru_entry :: "('k, 'v) LruNode list \<Rightarrow> 'k \<Rightarrow> nat \<Rightarrow> bool" where
  "lru_entry h k n =
     (2 \<le> n \<and> n < length h \<and> prev (h ! n) = Some 0 \<and> next (h ! n) = Some 1
      \<and> node_key (h ! n) = k)"

definition lru_wf :: "('k, 'v) LruCache \<Rightarrow> bool" where
  "lru_wf c =
     (dummyHead c = 0 \<and> dummyTail c = 1 \<and> 2 \<le> length (lru_heap c)
      \<and> prev (lru_heap c ! 1) = Some 0 \<and> next (lru_heap c ! 1) = None
      \<and> list_all (\<lambda>(k, n). lru_entry (lru_heap c) k n) (lru_nodeMap c)
      \<and> distinct (map fst (lru_nodeMap c)) \<and> distinct (map snd (lru_nodeMap c))
      \<and> length (lru_nodeMap c) \<le> size_t_of_int (lru_capacity c)
      \<and> next (lru_heap c ! 0) \<in> set (map Some (1 # map snd (lru_nodeMap c))))"

text \<open>The value that the key map and the nodes hold for a key.\<close>

definition lru_lookup :: "('k, 'v) LruCache \<Rightarrow> 'k \<Rightarrow> 'v option" where
  "lru_lookup c k =
     (case map_of (lru_nodeMap c) k of
        None \<Rightarrow> None
      | Some n \<Rightarrow> Some (node_value (lru_heap c ! n)))"




text \<open>
  An \<^verbatim>\<open>LfuCache\<close> of capacity 1 with \<^verbatim>\<open>maxAverageNum\<close> 251 that holds one key and has
  been read again and again. \<open>hotState k v dk eb f\<close> is the cache while the entry has
  frequency \<open>f\<close>: the buckets \<open>eb\<close> below \<open>f\<close> have been left empty one after the other.
  \<open>agedState k v dk eb\<close> is the cache after the read that takes the running average to
  252: the entry has moved from bucket 252 to bucket 127.
\<close>

primrec emptyBuckets :: "nat \<Rightarrow> (int \<times> nat list) list" where
  "emptyBuckets 0 = []"
| "emptyBuckets (Suc n) = emptyBuckets n @ [(int n + 1, [])]"

definition hotState :: "'k \<Rightarrow> 'v \<Rightarrow> 'k \<Rightarrow> (int \<times> nat list) list \<Rightarrow> int \<Rightarrow> ('k, 'v) LfuCache" where
  "hotState k v dk eb f =
     \<lparr>lfu_capacity = 1, minFreq = f, maxAverageNum = 251, curAverageNum = f,
      curTotalNum = f, lfu_nodeMap = [(k, 0)],
      freqToFreqList = eb @ [(f, [0])],
      lfu_nodes = [\<lparr>freq = f, lfu_key = k, lfu_value = v\<rparr>],
      lfu_defaultKey = dk\<rparr>"

definition agedState :: "'k \<Rightarrow> 'v \<Rightarrow> 'k \<Rightarrow> (int \<times> nat list) list \<Rightarrow> ('k, 'v) LfuCache" where
  "agedState k v dk eb =
     \<lparr>lfu_capacity = 1, minFreq = 1, maxAverageNum = 251, curAverageNum = 252,
      curTotalNum = 252, lfu_nodeMap = [(k, 0)],
      freqToFreqList = AList.update 127 [0] eb @ [(251, []), (252, [])],
      lfu_nodes = [\<lparr>freq = 127, lfu_key = k, lfu_value = v\<rparr>],
      lfu_defaultKey = dk\<rparr>"

section \<open>Evaluation rules\<close>

lemmas LruCache_sym_defs =
  LruCache_new_def LruNode_new_def set_next_def set_prev_def LruCache_removeNode_def
  insertNode_def moveToMostRecent_def evictLeastRecent_def updateExistingNode_def
  addNewNode_def LruCache_put_def LruCache_get_def LruCache_get_value_def
  LruCache_remove_def AList.delete_eq

lemmas LruCache_defs = LruCache_sym_defs size_t_of_int_def


lemmas LfuCache_defs =
  LfuCache_new_def getFirstNode_def nodeRef_freq_def nodeRef_key_def removeFromFreqList_def
  addToFreqList_def updateMinFreq_def handleOverMaxAverageNum_def addFreqNum_def
  decreaseFreqNum_def getInternal_def kickOut_def putInternal_def LfuCache_put_def
  LfuCache_get_def size_t_of_int_def int_of_size_t_def cdiv_def AList.delete_eq Let_def
  numeral_2_eq_2 [symmetric]

lemmas Hash_defs =
  HashLruCaches_new_def sliceIndex_def HashLruCaches_put_def HashLruCaches_get_def
  HashLfuCache_new_def HashLfuCache_put_def HashLfuCache_get_def

lemmas ArcCache_defs =
  ArcCache_new_def ArcLruPart_new_def ArcLfuPart_new_def alru_removeOldestGhost_def
  alru_addToGhost_def alru_evictLeastRecent_def alru_moveToFront_def
  alru_updateExistingNode_def alru_addNewNode_def ArcLruPart_put_def
  alru_updateNodeAccess_def ArcLruPart_get_def inLruMainCache_def ArcLruPart_checkGhost_def
  ArcLruPart_increaseCapacity_def ArcLruPart_decreaseCapacity_def freqMap_list_def
  freqMap_begin_def alfu_removeOldestGhost_def alfu_addToGhost_def evictLeastFrequent_def
  updateNodeFrequency_def alfu_updateExistingNode_def alfu_addNewNode_def ArcLfuPart_put_def
  ArcLfuPart_get_def inLfuMainCache_def ArcLfuPart_checkGhost_def
  ArcLfuPart_increaseCapacity_def ArcLfuPart_decreaseCapacity_def checkGhostCaches_def
  ArcCache_put_def ArcCache_get_def inLruGhost_def inLfuGhost_def AList.delete_eq Let_def


section \<open>Association lists\<close>

lemma update_absent: "k \<notin> fst ` set xs \<Longrightarrow> AList.update k v xs = xs @ [(k, v)]"
  by (induction xs) auto

lemma update_last: "k \<notin> fst ` set xs \<Longrightarrow> AList.update k v (xs @ [(k, w)]) = xs @ [(k, v)]"
  by (induction xs) auto

lemma update_present:
  "map_of xs k = Some w \<Longrightarrow> AList.update k v (xs @ ys) = AList.update k v xs @ ys"
  by (induction xs) (auto split: if_splits)

lemma set_update_subset: "set (AList.update k v xs) \<subseteq> insert (k, v) (set xs)"
  by (induction xs) auto

lemma map_of_last: "k \<notin> fst ` set xs \<Longrightarrow> map_of (xs @ [(k, w)]) k = Some w"
  by (induction xs) auto

lemma map_of_absent: "k \<notin> fst ` set xs \<Longrightarrow> map_of xs k = None"
  by (simp add: map_of_eq_None_iff)

lemma map_of_append_Some: "map_of xs k = Some v \<Longrightarrow> map_of (xs @ ys) k = Some v"
  by (simp add: map_add_def)

section \<open>LruCache: the operations on a well-formed store\<close>

text \<open>
  On a well-formed store every operation is given in closed form: unlinking an entry writes
  the head sentinel's \<^verbatim>\<open>next_\<close>, linking a node writes the node and both links of the head
  sentinel. From these, \<^verbatim>\<open>get\<close>, \<^verbatim>\<open>put\<close> and \<^verbatim>\<open>remove\<close> return, keep the store well
  formed and change the stored values as a map from keys to values would, except that a
  \<^verbatim>\<open>put\<close> of a new key into a full store whose head sentinel points to the tail sentinel
  does not return (\<^verbatim>\<open>evictLeastRecent\<close> dereferences the null \<^verbatim>\<open>next_\<close> of the tail
  sentinel).
\<close>

lemma LruNode_links_id:
  "prev r = p \<Longrightarrow> next r = n \<Longrightarrow> r\<lparr>next := n, prev := p\<rparr> = r"
  "prev r = p \<Longrightarrow> r\<lparr>prev := p\<rparr> = r"
  "next r = n \<Longrightarrow> r\<lparr>next := n\<rparr> = r"
  by (cases r; simp)+

lemma list_update_other_same: "i \<noteq> j \<Longrightarrow> xs[i := a, j := xs ! j] = xs[i := a]"
  using list_update_id [of "xs[i := a]" j] by simp

lemma LruCache_removeNode_entry:
  assumes "prev (h ! 1) = Some 0" "2 \<le> n" "n < length h"
    "prev (h ! n) = Some 0" "next (h ! n) = Some 1"
  shows "LruCache_removeNode h n = Some (h[0 := (h ! 0)\<lparr>next := Some 1\<rparr>])"
proof -
  have l: "0 < length h" "1 < length h" "n \<noteq> 0" "n \<noteq> 1"
    using assms(2,3) by linarith+
  show ?thesis
    using assms l
    by (simp add: LruCache_removeNode_def set_next_def set_prev_def LruNode_links_id
        list_update_other_same)
qed

lemma insertNode_at:
  assumes "dummyHead c = 0" "dummyTail c = 1" "prev (h ! 1) = Some 0" "2 \<le> n" "n < length h"
  shows "insertNode c h n
         = Some (h[n := (h ! n)\<lparr>next := Some 1, prev := Some 0\<rparr>,
                   0 := (h ! 0)\<lparr>next := Some n, prev := Some n\<rparr>])"
proof -
  have l: "0 < length h" "1 < length h" "n \<noteq> 0" "n \<noteq> 1" "0 \<noteq> n"
    using assms(4,5) by linarith+
  show ?thesis
    using assms l
    by (simp add: insertNode_def set_next_def set_prev_def list_update_swap [of n 0])
qed

lemma lru_entry_head: "lru_entry (h[0 := x]) k n = lru_entry h k n"
  by (auto simp: lru_entry_def)


lemma lru_wf_entry:
  assumes "lru_wf c" "map_of (lru_nodeMap c) k = Some n"
  shows "lru_entry (lru_heap c) k n"
proof -
  have "(k, n) \<in> set (lru_nodeMap c)"
    using assms(2) by (rule map_of_SomeD)
  moreover have "list_all (\<lambda>(k, n). lru_entry (lru_heap c) k n) (lru_nodeMap c)"
    using assms(1) by (simp add: lru_wf_def)
  ultimately show ?thesis
    by (auto simp: list_all_iff)
qed


lemma moveToMostRecent_entry:
  assumes "dummyHead c = 0" "dummyTail c = 1" "prev (lru_heap c ! 1) = Some 0"
    "lru_entry (lru_heap c) k n"
  shows "moveToMostRecent c n
         = Some (c\<lparr>lru_heap := (lru_heap c)[0 := (lru_heap c ! 0)\<lparr>next := Some n, prev := Some n\<rparr>]\<rparr>)"
proof -
  let ?h = "lru_heap c"
  have e: "2 \<le> n" "n < length ?h" "prev (?h ! n) = Some 0" "next (?h ! n) = Some 1"
    using assms(4) by (simp_all add: lru_entry_def)
  have l: "0 < length ?h" "n \<noteq> 0" "0 \<noteq> n" "1 \<noteq> (0::nat)"
    using e(1,2) by linarith+
  have r: "LruCache_removeNode ?h n = Some (?h[0 := (?h ! 0)\<lparr>next := Some 1\<rparr>])"
    using assms(3) e by (rule LruCache_removeNode_entry)
  have i: "insertNode c (?h[0 := (?h ! 0)\<lparr>next := Some 1\<rparr>]) n
           = Some (?h[0 := (?h ! 0)\<lparr>next := Some n, prev := Some n\<rparr>])"
    using assms(1-3) e l
    by (simp add: insertNode_at LruNode_links_id list_update_other_same)
  show ?thesis
    by (simp add: moveToMostRecent_def r i [unfolded One_nat_def])
qed

lemma lru_wf_head:
  assumes w: "lru_wf c" and m: "m = Suc 0 \<or> m \<in> snd ` set (lru_nodeMap c)"
  shows "lru_wf (c\<lparr>lru_heap := (lru_heap c)[0 := (lru_heap c ! 0)\<lparr>next := Some m, prev := p\<rparr>]\<rparr>)"
proof -
  have l: "0 < length (lru_heap c)"
    using w by (auto simp: lru_wf_def)
  show ?thesis
    using w m l by (auto simp: lru_wf_def lru_entry_head)
qed

lemma lru_lookup_head:
  assumes w: "lru_wf c"
  shows "lru_lookup (c\<lparr>lru_heap := (lru_heap c)[0 := x]\<rparr>) k = lru_lookup c k"
proof (cases "map_of (lru_nodeMap c) k")
  case None
  then show ?thesis by (simp add: lru_lookup_def)
next
  case (Some n)
  have "lru_entry (lru_heap c) k n"
    using w Some by (rule lru_wf_entry)
  then have "n \<noteq> 0" by (simp add: lru_entry_def)
  then show ?thesis using Some by (simp add: lru_lookup_def)
qed

lemma LruCache_get_wf:
  assumes w: "lru_wf c"
  shows "\<exists>c'. LruCache_get c k = Some (c', lru_lookup c k) \<and> lru_wf c'
           \<and> lru_nodeMap c' = lru_nodeMap c \<and> lru_capacity c' = lru_capacity c
           \<and> lru_lookup c' = lru_lookup c"
proof (cases "map_of (lru_nodeMap c) k")
  case None
  then show ?thesis using w by (simp add: LruCache_get_def lru_lookup_def)
next
  case (Some n)
  let ?c' = "c\<lparr>lru_heap := (lru_heap c)[0 := (lru_heap c ! 0)\<lparr>next := Some n, prev := Some n\<rparr>]\<rparr>"
  have e: "lru_entry (lru_heap c) k n"
    using w Some by (rule lru_wf_entry)
  then have n0: "n \<noteq> 0" by (simp add: lru_entry_def)
  have mv: "moveToMostRecent c n = Some ?c'"
    using w e by (intro moveToMostRecent_entry) (simp_all add: lru_wf_def)
  have "n \<in> snd ` set (lru_nodeMap c)"
    using map_of_SomeD [OF Some] by (simp add: rev_image_eqI)
  then have w': "lru_wf ?c'"
    using w by (intro lru_wf_head) simp_all
  have lk: "lru_lookup ?c' = lru_lookup c"
    using w by (simp add: fun_eq_iff lru_lookup_head)
  have "LruCache_get c k = Some (?c', lru_lookup c k)"
    using n0 by (simp add: LruCache_get_def Some mv lru_lookup_def)
  then show ?thesis
    using w' lk by (intro exI [of _ ?c']) simp
qed














section \<open>LruKCache: the third access\<close>




lemma LruCache_get_wf':
  "lru_wf c \<Longrightarrow> LruCache_get c k = Some (c', r) \<Longrightarrow> lru_wf c' \<and> lru_capacity c' = lru_capacity c"
  using LruCache_get_wf [of c k] by auto








section \<open>An LfuCache with one hot key\<close>

text \<open>
  The scan of \<^verbatim>\<open>updateMinFreq\<close> returns its start value when no non-empty bucket lies
  below it.
\<close>

lemma fold_min_above:
  "\<forall>p \<in> set bs. snd p \<noteq> [] \<longrightarrow> m \<le> fst p \<Longrightarrow>
   fold (\<lambda>(f, fl) m. if fl \<noteq> [] then min m f else m) bs (m::int) = m"
  by (induction bs) (auto simp: min_def)

lemma nonempty_after_update:
  "\<forall>p \<in> set eb. snd p = [] \<Longrightarrow> map_of eb j = Some [] \<Longrightarrow>
   filter (\<lambda>(f, fl). fl \<noteq> []) (AList.update j [x] eb) = [(j, [x])]"
proof (induction eb)
  case Nil
  then show ?case by simp
next
  case (Cons p eb)
  have e: "filter (\<lambda>(f, fl). fl \<noteq> []) eb = []"
    using Cons.prems(1) by (auto simp: filter_empty_conv)
  show ?case
  proof (cases "fst p = j")
    case True
    then show ?thesis using e by simp
  next
    case False
    then show ?thesis using Cons by (cases p) auto
  qed
qed

lemma keys_emptyBuckets: "fst ` set (emptyBuckets n) = int ` {1..n}"
  by (induction n) (auto simp: image_iff atLeastAtMostSuc_conv)

lemma emptyBuckets_empty: "p \<in> set (emptyBuckets n) \<Longrightarrow> snd p = []"
  by (induction n) auto

lemma map_of_emptyBuckets:
  "1 \<le> j \<Longrightarrow> j \<le> n \<Longrightarrow> map_of (emptyBuckets n) (int j) = Some []"
proof (induction n)
  case 0
  then show ?case by simp
next
  case (Suc n)
  show ?case
  proof (cases "j = Suc n")
    case True
    have "int n + 1 \<notin> fst ` set (emptyBuckets n)"
      unfolding keys_emptyBuckets by auto
    then show ?thesis
      using True map_of_last [of "int n + 1" "emptyBuckets n" "[]"] by (simp add: add.commute)
  next
    case False
    then have "map_of (emptyBuckets n) (int j) = Some []"
      using Suc by simp
    then show ?thesis
      using map_of_append_Some [of "emptyBuckets n" "int j" "[]" "[(int n + 1, [])]"] by simp
  qed
qed

text \<open>The first \<^verbatim>\<open>put\<close> of a key into the fresh cache.\<close>

lemma hot_put: "LfuCache_put (LfuCache_new 1 251 dk) k v = Some (hotState k v dk [] 1)"
  by (simp add: LfuCache_new_def LfuCache_put_def putInternal_def addToFreqList_def
      addFreqNum_def size_t_of_int_def int_of_size_t_def hotState_def Let_def)

text \<open>
  One \<^verbatim>\<open>get\<close> while the running average stays within 251: the entry moves up one
  bucket, and \<^verbatim>\<open>minFreq_\<close> follows it.
\<close>

lemma hot_get:
  assumes a: "f \<notin> fst ` set eb" and b: "f + 1 \<notin> fst ` set eb" and f: "0 \<le> f" "f < 251"
  shows "LfuCache_get (hotState k v dk eb f) k
         = Some (hotState k v dk (eb @ [(f, [])]) (f + 1), Some v)"
proof -
  have b': "f + 1 \<notin> fst ` set (eb @ [(f, [])])"
    using b by simp
  have 1: "map_of (eb @ [(f, [0])]) f = Some [0]"
    by (rule map_of_last [OF a])
  have 2: "AList.update f [] (eb @ [(f, [0])]) = eb @ [(f, [])]"
    by (rule update_last [OF a])
  have 3: "map_of (eb @ [(f, [])]) (f + 1) = None"
    by (rule map_of_absent [OF b'])
  have 4: "AList.update (f + 1) [0] (eb @ [(f, [])]) = eb @ [(f, []), (f + 1, [0])]"
    using update_absent [OF b', of "[0]"] by simp
  have "map_of (eb @ [(f, [])]) f = Some []"
    by (rule map_of_last [OF a])
  then have "map_of ((eb @ [(f, [])]) @ [(f + 1, [0])]) f = Some []"
    by (rule map_of_append_Some)
  then have 5: "map_of (eb @ [(f, []), (f + 1, [0])]) f = Some []"
    by simp
  show ?thesis
    using f
    by (simp add: LfuCache_get_def hotState_def getInternal_def removeFromFreqList_def
        nodeRef_freq_def addToFreqList_def addFreqNum_def size_t_of_int_def int_of_size_t_def
        Let_def 1 2 3 4 5 del: map_of_append)
qed

lemma hot_gets:
  "n \<le> 250 \<Longrightarrow>
   LfuCache_gets n (hotState k v dk [] 1) k
     = Some (hotState k v dk (emptyBuckets n) (int n + 1))"
proof (induction n)
  case 0
  then show ?case by simp
next
  case (Suc n)
  have "int n + 1 \<notin> fst ` set (emptyBuckets n)"
    "int n + 1 + 1 \<notin> fst ` set (emptyBuckets n)"
    unfolding keys_emptyBuckets by auto
  then have "LfuCache_get (hotState k v dk (emptyBuckets n) (int n + 1)) k
      = Some (hotState k v dk (emptyBuckets (Suc n)) (int (Suc n) + 1), Some v)"
    using Suc.prems hot_get [of "int n + 1" "emptyBuckets n" k v dk]
    by (simp add: add.commute)
  then show ?case
    using Suc by simp
qed

text \<open>
  The \<^verbatim>\<open>get\<close> that takes the running average to 252: the aging pass moves the entry
  to bucket \<open>252 - 251 div 2 = 127\<close>, and \<^verbatim>\<open>updateMinFreq\<close>, whose scan ends at its
  start value 127, sets \<^verbatim>\<open>minFreq_\<close> to 1.
\<close>

lemma aging_get:
  assumes a: "251 \<notin> fst ` set eb" and b: "252 \<notin> fst ` set eb"
    and c: "map_of eb 127 = Some []" and d: "\<forall>p \<in> set eb. snd p = []"
  shows "LfuCache_get (hotState k v dk eb 251) k = Some (agedState k v dk eb, Some v)"
proof -
  have b': "252 \<notin> fst ` set (eb @ [(251, [])])"
    using b by simp
  have 1: "map_of (eb @ [(251, [0])]) 251 = Some [0]"
    by (rule map_of_last [OF a])
  have 2: "AList.update 251 [] (eb @ [(251, [0])]) = eb @ [(251, [])]"
    by (rule update_last [OF a])
  have 3: "map_of (eb @ [(251, [])]) 252 = None"
    by (rule map_of_absent [OF b'])
  have 4: "AList.update 252 [0] (eb @ [(251, [])]) = eb @ [(251, []), (252, [0])]"
    using update_absent [OF b', of "[0]"] by simp
  have "map_of (eb @ [(251, [])]) 251 = Some []"
    by (rule map_of_last [OF a])
  then have "map_of ((eb @ [(251, [])]) @ [(252, [0])]) 251 = Some []"
    by (rule map_of_append_Some)
  then have 5: "map_of (eb @ [(251, []), (252, [0])]) 251 = Some []"
    by simp
  have 6: "map_of (eb @ [(251, []), (252, [0])]) 252 = Some [0]"
    using map_of_last [OF b', of "[0]"] by simp
  have 7: "AList.update 252 [] (eb @ [(251, []), (252, [0])]) = eb @ [(251, []), (252, [])]"
    using update_last [OF b', of "[]" "[0]"] by simp
  have 8: "map_of (eb @ [(251, []), (252, [])]) 127 = Some []"
    by (rule map_of_append_Some [OF c])
  have 9: "AList.update 127 [0] (eb @ [(251, []), (252, [])])
           = AList.update 127 [0] eb @ [(251, []), (252, [])]"
    by (rule update_present [OF c])
  have "\<forall>p \<in> set (AList.update 127 [0] eb @ [(251, []), (252, [])]).
          snd p \<noteq> [] \<longrightarrow> (127::int) \<le> fst p"
    using d set_update_subset [of 127 "[0]" eb] by auto
  then have 10: "fold (\<lambda>(f, fl) m. if fl \<noteq> [] then min m f else m)
                  (AList.update 127 [0] eb @ [(251, []), (252, [])]) (127::int) = 127"
    by (rule fold_min_above)
  show ?thesis
    by (simp add: LfuCache_get_def hotState_def agedState_def getInternal_def
        removeFromFreqList_def nodeRef_freq_def addToFreqList_def addFreqNum_def
        handleOverMaxAverageNum_def updateMinFreq_def cdiv_def size_t_of_int_def
        int_of_size_t_def Let_def 1 2 3 4 5 6 7 8 9 10 del: map_of_append fold_append)
qed

lemma hot_251:
  "do { s \<leftarrow> LfuCache_put (LfuCache_new 1 251 dk) k v; LfuCache_gets 251 s k }
   = Some (agedState k v dk (emptyBuckets 250))"
proof -
  have g: "LfuCache_gets 250 (hotState k v dk [] 1) k
           = Some (hotState k v dk (emptyBuckets 250) 251)"
    using hot_gets [of 250 k v dk] by simp
  have "(251::int) \<notin> fst ` set (emptyBuckets 250)"
    "(252::int) \<notin> fst ` set (emptyBuckets 250)"
    unfolding keys_emptyBuckets by auto
  moreover have "map_of (emptyBuckets 250) 127 = Some []"
    using map_of_emptyBuckets [of 127 250] by simp
  moreover have "\<forall>p \<in> set (emptyBuckets 250). snd p = []"
    using emptyBuckets_empty by blast
  ultimately have a: "LfuCache_get (hotState k v dk (emptyBuckets 250) 251) k
      = Some (agedState k v dk (emptyBuckets 250), Some v)"
    by (rule aging_get)
  have "LfuCache_gets (Suc 250) (hotState k v dk [] 1) k
        = Some (agedState k v dk (emptyBuckets 250))"
    by (simp only: LfuCache_gets.simps g a bind.simps split)
  then show ?thesis
    by (simp add: hot_put)
qed

text \<open>
  A \<^verbatim>\<open>put\<close> of a second key into the aged cache. \<^verbatim>\<open>kickOut\<close> looks into bucket 1,
  which is empty, gets the tail sentinel, and erases the sentinel's key from the key map.
\<close>

lemma aged_put:
  assumes "map_of eb 1 = Some []" "k \<noteq> y" "dk \<noteq> k"
  shows "map_option (\<lambda>s. (map fst (lfu_nodeMap s), lfu_capacity s))
           (LfuCache_put (agedState k v dk eb) y w) = Some ([k, y], 1)"
proof -
  have "map_of (AList.update 127 [0] eb) 1 = Some []"
    using assms(1) by (simp add: AList.update_conv')
  then have 1: "map_of (AList.update 127 [0] eb @ [(251, []), (252, [])]) 1 = Some []"
    by (rule map_of_append_Some)
  show ?thesis
    using assms(2,3)
    by (simp add: LfuCache_put_def putInternal_def kickOut_def getFirstNode_def
        removeFromFreqList_def nodeRef_freq_def nodeRef_key_def decreaseFreqNum_def
        addToFreqList_def addFreqNum_def agedState_def size_t_of_int_def int_of_size_t_def
        AList.delete_eq Let_def 1 numeral_2_eq_2 [symmetric] del: map_of_append)
qed

section \<open>ArcCache: ghost lookups and the partitions' writes\<close>

lemma checkGhostCaches_none:
  "\<not> inLruGhost (lruPart s) key \<Longrightarrow> \<not> inLfuGhost (lfuPart s) key \<Longrightarrow>
   checkGhostCaches s key = (s, False)"
  by (simp add: checkGhostCaches_def ArcLruPart_checkGhost_def ArcLfuPart_checkGhost_def
      inLruGhost_def inLfuGhost_def)





















lemma ArcCache_get_absent:
  assumes "\<not> inLruMainCache (lruPart s) key" "\<not> inLfuMainCache (lfuPart s) key"
    "\<not> inLruGhost (lruPart s) key" "\<not> inLfuGhost (lfuPart s) key"
  shows "ArcCache_get s key = (s, None)"
  using assms
  by (simp add: ArcCache_get_def checkGhostCaches_none ArcLruPart_get_def ArcLfuPart_get_def
      inLruMainCache_def inLfuMainCache_def)

lemma ArcCache_gets_absent:
  assumes "\<not> inLruMainCache (lruPart s) key" "\<not> inLfuMainCache (lfuPart s) key"
    "\<not> inLruGhost (lruPart s) key" "\<not> inLfuGhost (lfuPart s) key"
  shows "((\<lambda>s. fst (ArcCache_get s key)) ^^ n) s = s"
  by (induction n) (simp_all add: ArcCache_get_absent [OF assms])

section \<open>ArcCache: the key maps point into the nodes\<close>























section \<open>Claims\<close>

text \<open>
  C1. The claim bounds the number of entries of every main cache by its capacity after
  every call. The code breaks the bound in \<^verbatim>\<open>LfuCache\<close>. Take an
  \<^verbatim>\<open>LfuCache<std::string, std::string>\<close> of capacity 1 with \<^verbatim>\<open>maxAverageNum\<close> 251:
  \<^verbatim>\<open>put("x","a")\<close>, then 251 times \<^verbatim>\<open>get("x")\<close>, then \<^verbatim>\<open>put("y","b")\<close>. The 251st
  read ages the entry to frequency 127 and \<^verbatim>\<open>updateMinFreq\<close> leaves \<^verbatim>\<open>minFreq_\<close> at 1
  (see C7). The second \<^verbatim>\<open>put\<close> finds the cache full and calls \<^verbatim>\<open>kickOut\<close>, which
  reads the empty bucket 1, removes nothing, and the new entry is added: the key map
  holds both keys while the capacity is 1.
\<close>

theorem C1_lfu_exceeds_capacity:
  "map_option (\<lambda>s. (map fst (lfu_nodeMap s), lfu_capacity s))
     (do {
        s \<leftarrow> LfuCache_put (LfuCache_new 1 251 []) ''x'' ''a'';
        s1 \<leftarrow> LfuCache_gets 251 s ''x'';
        LfuCache_put s1 ''y'' ''b''
      })
   = Some ([''x'', ''y''], 1)"
proof -
  have "map_of (emptyBuckets 250) 1 = Some []"
    using map_of_emptyBuckets [of 1 250] by simp
  then have "map_option (\<lambda>s. (map fst (lfu_nodeMap s), lfu_capacity s))
           (LfuCache_put (agedState ''x'' ''a'' [] (emptyBuckets 250)) ''y'' ''b'')
         = Some ([''x'', ''y''], 1)"
    by (rule aged_put) simp_all
  moreover have "do {
        s \<leftarrow> LfuCache_put (LfuCache_new 1 251 []) ''x'' ''a'';
        s1 \<leftarrow> LfuCache_gets 251 s ''x'';
        LfuCache_put s1 ''y'' ''b''
      } = LfuCache_put (agedState ''x'' ''a'' [] (emptyBuckets 250)) ''y'' ''b''"
    using hot_251 [of "[]" "''x''" "''a''"]
    by (cases "LfuCache_put (LfuCache_new 1 251 []) ''x'' ''a''") simp_all
  ultimately show ?thesis
    by simp
qed

text \<open>
  C2. The claim: a hit on the ghost list of the LRU partition moves exactly one slot of
  capacity from the LFU partition to the LRU partition, and moves nothing when the LFU
  partition is already at capacity 0. On an \<^verbatim>\<open>ArcCache\<close> of capacity 1, after
  \<^verbatim>\<open>put(1); put(2); put(1); put(3)\<close> key 2 is in the ghost list of the LRU partition,
  whose capacity is 2, and the LFU partition has capacity 0. \<^verbatim>\<open>put(2)\<close> then takes
  the LRU partition to capacity 3 and leaves the LFU partition at 0:
  \<^verbatim>\<open>ArcLfuPart::decreaseCapacity\<close> returns true at capacity 0.
\<close>

theorem C2_lru_grows_without_lfu_shrink:
  "(let s = ArcCache_run (ArcCache_new 1 2)
              [ArcPut (1::int) ''a'', ArcPut 2 ''b'', ArcPut 1 ''a'', ArcPut 3 ''c''];
        s' = ArcCache_put s 2 ''b''
    in (inLruGhost (lruPart s) 2,
        alru_capacity (lruPart s), alfu_capacity (lfuPart s),
        alru_capacity (lruPart s'), alfu_capacity (lfuPart s')))
   = (True, 2, 0, 3, 0)"
  by (simp add: ArcCache_defs)

text \<open>
  C3. On an \<^verbatim>\<open>LruCache\<close> of capacity 2, after \<^verbatim>\<open>put(1,"a"); put(2,"b"); put(3,"c")\<close>
  the claim expects key 1 to be gone and keys 2 and 3 to be readable. The code run on that
  input keeps keys 1 and 3 and drops key 2: \<^verbatim>\<open>get(1)\<close> hits with \<open>''a''\<close>, \<^verbatim>\<open>get(2)\<close>
  misses, \<^verbatim>\<open>get(3)\<close> hits with \<open>''c''\<close>. \<^verbatim>\<open>insertNode\<close> never moves the tail
  sentinel's back link, so each insertion overwrites \<^verbatim>\<open>dummyHead_->next_\<close> and the
  eviction end of the list holds the newest entry.
\<close>

theorem C3_lru_evicts_newest:
  "do {
     c1 \<leftarrow> LruCache_put (LruCache_new 2 (0::int) []) 1 ''a'';
     c2 \<leftarrow> LruCache_put c1 2 ''b'';
     c3 \<leftarrow> LruCache_put c2 3 ''c'';
     (c4, r1) \<leftarrow> LruCache_get c3 1;
     (c5, r2) \<leftarrow> LruCache_get c4 2;
     (c6, r3) \<leftarrow> LruCache_get c5 3;
     Some (map fst (lru_nodeMap c3), r1, r2, r3)
   } = Some ([1, 3], Some ''a'', None, Some ''c'')"
  by (simp add: LruCache_defs)

text \<open>
  C4. The claim: on a \<^verbatim>\<open>HashLfuCache\<close>, \<^verbatim>\<open>put(key, value)\<close> stores the value and a
  following \<^verbatim>\<open>get(key)\<close> returns it. \<^verbatim>\<open>HashLfuCache::put\<close> calls the slice's
  \<^verbatim>\<open>get\<close>, so on a fresh cache of capacity 1 with one slice, for any key, value and
  hash function, the slice's key map is still empty after \<^verbatim>\<open>put\<close> and the read that
  follows misses.
\<close>

theorem C4_hash_lfu_put_stores_nothing:
  "do {
     s \<leftarrow> HashLfuCache_put Hash (HashLfuCache_new hw 1 1 10 dk) k v;
     (s', r) \<leftarrow> HashLfuCache_get Hash s k;
     Some (map lfu_nodeMap (lfuSliceCaches s), r)
   } = Some ([[]], None)"
  by (simp add: Hash_defs LfuCache_defs)

text \<open>
  C5. The claim: after every \<^verbatim>\<open>ArcCache\<close> call no key is in a partition's main cache
  and in the same partition's ghost cache. On an \<^verbatim>\<open>ArcCache\<close> of capacity 2 with
  \<^verbatim>\<open>transformThreshold\<close> 2, after
  \<^verbatim>\<open>put(1); put(2); put(3); get(2); put(1); get(3); put(2)\<close>
  key 2 is in the main cache and in the ghost cache of the LRU partition. Before the last
  call key 2 is the least recent entry of the full LRU main cache and has a record in the
  ghost list of the LFU partition; the ghost hit makes \<^verbatim>\<open>decreaseCapacity\<close> evict key 2
  into the LRU ghost list, and \<^verbatim>\<open>put\<close> then inserts key 2 into the LRU main cache.
\<close>

theorem C5_key_in_main_and_own_ghost:
  "(let s = ArcCache_run (ArcCache_new 2 2)
              [ArcPut (1::int) ''a'', ArcPut 2 ''b'', ArcPut 3 ''c'', ArcGet 2,
               ArcPut 1 ''a'', ArcGet 3, ArcPut 2 ''b'']
    in (inLruMainCache (lruPart s) 2, inLruGhost (lruPart s) 2))
   = (True, True)"
  by (simp add: ArcCache_defs)




text \<open>
  C7. The claim: an aging pass lowers every frequency by \<^verbatim>\<open>maxAverageNum / 2\<close>,
  re-buckets the entries and leaves \<^verbatim>\<open>minFreq_\<close> at the least frequency with a
  non-empty bucket. On the cache of C1 (capacity 1, \<^verbatim>\<open>maxAverageNum\<close> 251), after
  \<^verbatim>\<open>put("x","a")\<close> and 251 times \<^verbatim>\<open>get("x")\<close> the entry has gone from frequency 252
  to 127 and sits in bucket 127, the only non-empty bucket, and \<^verbatim>\<open>minFreq_\<close> is 1:
  \<^verbatim>\<open>updateMinFreq\<close> starts its scan at \<^verbatim>\<open>INT8_MAX\<close> and takes a result of 127 for
  "no bucket found".
\<close>

theorem C7_aging_minFreq_not_minimum:
  "map_option
     (\<lambda>s. (map freq (lfu_nodes s), filter (\<lambda>(f, fl). fl \<noteq> []) (freqToFreqList s), minFreq s))
     (do { s \<leftarrow> LfuCache_put (LfuCache_new 1 251 []) ''x'' ''a''; LfuCache_gets 251 s ''x'' })
   = Some ([127], [(127, [0])], 1)"
proof -
  have "\<forall>p \<in> set (emptyBuckets 250). snd p = []"
    using emptyBuckets_empty by blast
  moreover have "map_of (emptyBuckets 250) 127 = Some []"
    using map_of_emptyBuckets [of 127 250] by simp
  ultimately have "filter (\<lambda>(f, fl). fl \<noteq> []) (AList.update 127 [0] (emptyBuckets 250))
      = [(127, [0::nat])]"
    by (rule nonempty_after_update)
  then show ?thesis
    by (simp add: hot_251 agedState_def)
qed

text \<open>
  C8 as stated fails. The claim has the eviction step itself rescan the bucket map when
  the bucket of \<^verbatim>\<open>minFreq_\<close> becomes empty. \<^verbatim>\<open>kickOut\<close> never writes \<^verbatim>\<open>minFreq_\<close>.
  On an \<^verbatim>\<open>LfuCache\<close> of capacity 2, after \<^verbatim>\<open>put(1,"a"); put(2,"b"); get(2)\<close> key 1
  has frequency 1 and key 2 has frequency 2; \<^verbatim>\<open>kickOut\<close> removes key 1, bucket 1 is
  empty, bucket 2 holds key 2, and \<^verbatim>\<open>minFreq_\<close> is still 1.
\<close>

theorem C8_kickOut_stale_minFreq:
  "do {
     s1 \<leftarrow> LfuCache_put (LfuCache_new 2 10 (0::int)) 1 ''a'';
     s2 \<leftarrow> LfuCache_put s1 2 ''b'';
     (s3, r) \<leftarrow> LfuCache_get s2 2;
     s4 \<leftarrow> kickOut s3;
     Some (map fst (lfu_nodeMap s4), freqToFreqList s4, minFreq s4)
   } = Some ([2], [(1, []), (2, [1])], 1)"
  by (simp add: LfuCache_defs)

text \<open>
  C8 as amended. Let the bucket of \<^verbatim>\<open>minFreq_\<close> hold the node \<open>n\<close> at its head, a node
  of that frequency, followed by the nodes \<open>rest\<close>. Then the eviction step \<^verbatim>\<open>kickOut\<close>
  removes \<open>n\<close>, the head (oldest-inserted) entry of that bucket, and nothing else: the
  bucket is left with \<open>rest\<close>, every other bucket and every node is as before, and the key
  of \<open>n\<close> is erased from the key map. The step does not recompute \<^verbatim>\<open>minFreq_\<close>: it has
  the value it had before, also when \<open>rest\<close> is empty, so right after the eviction
  \<^verbatim>\<open>minFreq_\<close> designates a non-empty bucket exactly when the bucket held a second entry.
\<close>

theorem C8_kickOut_head_minFreq_kept:
  assumes b: "map_of (freqToFreqList s) (minFreq s) = Some (n # rest)"
    and f: "freq (lfu_nodes s ! n) = minFreq s"
  shows "\<exists>s'. kickOut s = Some s'
           \<and> freqToFreqList s' = AList.update (minFreq s) rest (freqToFreqList s)
           \<and> map_of (freqToFreqList s') (minFreq s') = Some rest
           \<and> lfu_nodeMap s' = AList.delete (lfu_key (lfu_nodes s ! n)) (lfu_nodeMap s)
           \<and> lfu_nodes s' = lfu_nodes s
           \<and> minFreq s' = minFreq s"
  using b f
  by (simp add: kickOut_def getFirstNode_def removeFromFreqList_def nodeRef_freq_def
      nodeRef_key_def decreaseFreqNum_def Let_def AList.update_conv')

text \<open>
  The hypotheses hold in the cache of capacity 2 after \<^verbatim>\<open>put(1,"a"); put(2,"b")\<close>, where
  bucket 1 holds both entries: the eviction leaves key 2 in bucket 1. They hold in the
  state of the counterexample too, where bucket 1 holds key 1 alone: the eviction leaves
  bucket 1 empty and \<^verbatim>\<open>minFreq_\<close> at 1.
\<close>

theorem C8_kickOut_head_minFreq_kept_witness:
  "(\<exists>s. (LfuCache_put (LfuCache_new 2 10 (0::int)) 1 ''a'' \<bind> (\<lambda>s1. LfuCache_put s1 2 ''b''))
          = Some s
      \<and> map_of (freqToFreqList s) (minFreq s) = Some [0, 1]
      \<and> freq (lfu_nodes s ! 0) = minFreq s
      \<and> (\<exists>s'. kickOut s = Some s'
            \<and> freqToFreqList s' = AList.update (minFreq s) [1] (freqToFreqList s)
            \<and> map_of (freqToFreqList s') (minFreq s') = Some [1]
            \<and> lfu_nodeMap s' = AList.delete (lfu_key (lfu_nodes s ! 0)) (lfu_nodeMap s)
            \<and> lfu_nodes s' = lfu_nodes s
            \<and> minFreq s' = minFreq s))
 \<and> (\<exists>s. (LfuCache_put (LfuCache_new 2 10 (0::int)) 1 ''a'' \<bind>
            (\<lambda>s1. LfuCache_put s1 2 ''b'' \<bind> (\<lambda>s2. map_option fst (LfuCache_get s2 2))))
          = Some s
      \<and> map_of (freqToFreqList s) (minFreq s) = Some [0]
      \<and> freq (lfu_nodes s ! 0) = minFreq s
      \<and> minFreq s = 1
      \<and> (\<exists>s'. kickOut s = Some s'
            \<and> freqToFreqList s' = AList.update (minFreq s) [] (freqToFreqList s)
            \<and> map_of (freqToFreqList s') (minFreq s') = Some []
            \<and> lfu_nodeMap s' = AList.delete (lfu_key (lfu_nodes s ! 0)) (lfu_nodeMap s)
            \<and> lfu_nodes s' = lfu_nodes s
            \<and> minFreq s' = minFreq s))"
proof -
  let ?s = "\<lparr>lfu_capacity = 2, minFreq = 1, maxAverageNum = 10, curAverageNum = 1,
             curTotalNum = 2, lfu_nodeMap = [(1::int, 0), (2, 1)],
             freqToFreqList = [(1, [0, 1])],
             lfu_nodes = [\<lparr>freq = 1, lfu_key = 1, lfu_value = ''a''\<rparr>,
                          \<lparr>freq = 1, lfu_key = 2, lfu_value = ''b''\<rparr>],
             lfu_defaultKey = 0\<rparr>"
  let ?t = "\<lparr>lfu_capacity = 2, minFreq = 1, maxAverageNum = 10, curAverageNum = 1,
             curTotalNum = 3, lfu_nodeMap = [(1::int, 0), (2, 1)],
             freqToFreqList = [(1, [0]), (2, [1])],
             lfu_nodes = [\<lparr>freq = 1, lfu_key = 1, lfu_value = ''a''\<rparr>,
                          \<lparr>freq = 2, lfu_key = 2, lfu_value = ''b''\<rparr>],
             lfu_defaultKey = 0\<rparr>"
  have rs: "(LfuCache_put (LfuCache_new 2 10 (0::int)) 1 ''a'' \<bind> (\<lambda>s1. LfuCache_put s1 2 ''b''))
          = Some ?s"
    by (simp add: LfuCache_defs)
  have bs: "map_of (freqToFreqList ?s) (minFreq ?s) = Some [0, 1]"
    and fs: "freq (lfu_nodes ?s ! 0) = minFreq ?s"
    by simp_all
  have rt: "(LfuCache_put (LfuCache_new 2 10 (0::int)) 1 ''a'' \<bind>
              (\<lambda>s1. LfuCache_put s1 2 ''b'' \<bind> (\<lambda>s2. map_option fst (LfuCache_get s2 2))))
          = Some ?t"
    by (simp add: LfuCache_defs)
  have bt: "map_of (freqToFreqList ?t) (minFreq ?t) = Some [0]"
    and ft: "freq (lfu_nodes ?t ! 0) = minFreq ?t"
    and mt: "minFreq ?t = 1"
    by simp_all
  from C8_kickOut_head_minFreq_kept [OF bs fs] rs bs fs
  have S: "\<exists>s. (LfuCache_put (LfuCache_new 2 10 (0::int)) 1 ''a'' \<bind> (\<lambda>s1. LfuCache_put s1 2 ''b''))
          = Some s
      \<and> map_of (freqToFreqList s) (minFreq s) = Some [0, 1]
      \<and> freq (lfu_nodes s ! 0) = minFreq s
      \<and> (\<exists>s'. kickOut s = Some s'
            \<and> freqToFreqList s' = AList.update (minFreq s) [1] (freqToFreqList s)
            \<and> map_of (freqToFreqList s') (minFreq s') = Some [1]
            \<and> lfu_nodeMap s' = AList.delete (lfu_key (lfu_nodes s ! 0)) (lfu_nodeMap s)
            \<and> lfu_nodes s' = lfu_nodes s
            \<and> minFreq s' = minFreq s)"
    by blast
  from C8_kickOut_head_minFreq_kept [OF bt ft] rt bt ft mt
  have T: "\<exists>s. (LfuCache_put (LfuCache_new 2 10 (0::int)) 1 ''a'' \<bind>
            (\<lambda>s1. LfuCache_put s1 2 ''b'' \<bind> (\<lambda>s2. map_option fst (LfuCache_get s2 2))))
          = Some s
      \<and> map_of (freqToFreqList s) (minFreq s) = Some [0]
      \<and> freq (lfu_nodes s ! 0) = minFreq s
      \<and> minFreq s = 1
      \<and> (\<exists>s'. kickOut s = Some s'
            \<and> freqToFreqList s' = AList.update (minFreq s) [] (freqToFreqList s)
            \<and> map_of (freqToFreqList s') (minFreq s') = Some []
            \<and> lfu_nodeMap s' = AList.delete (lfu_key (lfu_nodes s ! 0)) (lfu_nodeMap s)
            \<and> lfu_nodes s' = lfu_nodes s
            \<and> minFreq s' = minFreq s)"
    by blast
  from S T show ?thesis
    by (rule conjI)
qed




text \<open>
  C10 as stated fails. The claim: for every strategy, \<^verbatim>\<open>get\<close> on a key that is not
  stored reports a miss and changes nothing, the ghost lists and the partition capacities
  included. In an \<^verbatim>\<open>ArcCache\<close> a key that is not stored can have a record in a ghost
  list, and \<^verbatim>\<open>ArcCache::get\<close> runs the ghost check before it looks the key up: on a cache
  of capacity 2, after \<^verbatim>\<open>put(1); put(2); put(3)\<close> key 1 is in neither main cache,
  \<^verbatim>\<open>get(1)\<close> misses, and the call removes the ghost record and takes the capacities of
  the two partitions from (2, 2) to (3, 1).
\<close>

theorem C10_miss_mutates:
  "(let s = ArcCache_run (ArcCache_new 2 2)
              [ArcPut (1::int) ''a'', ArcPut 2 ''b'', ArcPut 3 ''c''];
        (s', r) = ArcCache_get s 1
    in (inLruMainCache (lruPart s) 1, inLfuMainCache (lfuPart s) 1, r,
        inLruGhost (lruPart s) 1, alru_capacity (lruPart s), alfu_capacity (lfuPart s),
        inLruGhost (lruPart s') 1, alru_capacity (lruPart s'), alfu_capacity (lfuPart s')))
   = (False, False, None, True, 2, 2, False, 3, 1)"
  by (simp add: ArcCache_defs)

text \<open>
  C10 as amended. In \<^verbatim>\<open>LruCache\<close>, \<^verbatim>\<open>LfuCache\<close>, a slice of \<^verbatim>\<open>HashLruCaches\<close>,
  \<^verbatim>\<open>ArcLruPart\<close> and \<^verbatim>\<open>ArcLfuPart\<close>, \<^verbatim>\<open>get\<close> on a key that the key map does not
  hold reports a miss and returns the state it was given. In \<^verbatim>\<open>ArcCache\<close> the same
  holds for a key that is in neither main cache and in neither ghost list, for one call
  and for any number \<open>n\<close> of calls. A state that a call returns unchanged is unchanged by
  every repetition of the call.
\<close>

theorem C10_miss_leaves_state:
  "(map_of (lru_nodeMap c) k1 = None \<longrightarrow> LruCache_get c k1 = Some (c, None))
 \<and> (map_of (lfu_nodeMap f) k2 = None \<longrightarrow> LfuCache_get f k2 = Some (f, None))
 \<and> (sliceIndex Hash (hlru_sliceNum h) k3 = Some i \<and> i < length (lruSliceCaches h)
      \<and> map_of (lru_nodeMap (lruSliceCaches h ! i)) k3 = None
      \<longrightarrow> HashLruCaches_get Hash h k3 = Some (h, None))
 \<and> (\<not> inLruMainCache p k4 \<longrightarrow> ArcLruPart_get p k4 st = (p, None, st))
 \<and> (\<not> inLfuMainCache q k5 \<longrightarrow> ArcLfuPart_get q k5 = (q, None))
 \<and> (\<not> inLruMainCache (lruPart s) key \<and> \<not> inLfuMainCache (lfuPart s) key
      \<and> \<not> inLruGhost (lruPart s) key \<and> \<not> inLfuGhost (lfuPart s) key
      \<longrightarrow> ArcCache_get s key = (s, None) \<and> ((\<lambda>s. fst (ArcCache_get s key)) ^^ n) s = s)"
  by (simp add: LruCache_get_def LfuCache_get_def HashLruCaches_get_def ArcLruPart_get_def
      ArcLfuPart_get_def inLruMainCache_def inLfuMainCache_def ArcCache_get_absent
      ArcCache_gets_absent)

text \<open>
  The hypotheses hold for key 9 in fresh caches and in the \<^verbatim>\<open>ArcCache\<close> of capacity 2
  after \<^verbatim>\<open>put(1); put(2); get(1)\<close>.
\<close>

theorem C10_miss_leaves_state_witness:
  "LruCache_get (LruCache_new 2 (0::int) ''z'') 9 = Some (LruCache_new 2 0 ''z'', None)
 \<and> LfuCache_get (LfuCache_new 2 10 (0::int) :: (int, string) LfuCache) 9
      = Some (LfuCache_new 2 10 0, None)
 \<and> HashLruCaches_get nat (HashLruCaches_new 4 4 2 (0::int) ''z'') 9
      = Some (HashLruCaches_new 4 4 2 0 ''z'', None)
 \<and> ArcLruPart_get (ArcLruPart_new 2 2 :: (int, string) ArcLruPart) 9 False
      = (ArcLruPart_new 2 2, None, False)
 \<and> ArcLfuPart_get (ArcLfuPart_new 2 2 :: (int, string) ArcLfuPart) 9 = (ArcLfuPart_new 2 2, None)
 \<and> inLfuMainCache
      (lfuPart (ArcCache_run (ArcCache_new 2 2) [ArcPut (1::int) ''a'', ArcPut 2 ''b'', ArcGet 1])) 1
 \<and> ArcCache_get
      (ArcCache_run (ArcCache_new 2 2) [ArcPut (1::int) ''a'', ArcPut 2 ''b'', ArcGet 1]) 9
      = (ArcCache_run (ArcCache_new 2 2) [ArcPut (1::int) ''a'', ArcPut 2 ''b'', ArcGet 1], None)
 \<and> ((\<lambda>s. fst (ArcCache_get s 9)) ^^ 5)
      (ArcCache_run (ArcCache_new 2 2) [ArcPut (1::int) ''a'', ArcPut 2 ''b'', ArcGet 1])
      = ArcCache_run (ArcCache_new 2 2) [ArcPut (1::int) ''a'', ArcPut 2 ''b'', ArcGet 1]"
proof -
  let ?s = "ArcCache_run (ArcCache_new 2 2) [ArcPut (1::int) ''a'', ArcPut 2 ''b'', ArcGet 1]"
  let ?h = "HashLruCaches_new 4 4 2 (0::int) ''z''"
  have 1: "map_of (lru_nodeMap (LruCache_new 2 (0::int) ''z'')) 9 = None"
    by (simp add: LruCache_new_def)
  have 2: "map_of (lfu_nodeMap (LfuCache_new 2 10 (0::int) :: (int, string) LfuCache)) 9 = None"
    by (simp add: LfuCache_new_def)
  have 3: "sliceIndex nat (hlru_sliceNum ?h) 9 = Some 1 \<and> 1 < length (lruSliceCaches ?h)
      \<and> map_of (lru_nodeMap (lruSliceCaches ?h ! 1)) 9 = None"
    by (simp add: Hash_defs LruCache_new_def size_t_of_int_def int_of_size_t_def Let_def)
  have 4: "\<not> inLruMainCache (ArcLruPart_new 2 2 :: (int, string) ArcLruPart) 9"
    and 5: "\<not> inLfuMainCache (ArcLfuPart_new 2 2 :: (int, string) ArcLfuPart) 9"
    by (simp_all add: ArcCache_defs)
  have 6: "\<not> inLruMainCache (lruPart ?s) 9 \<and> \<not> inLfuMainCache (lfuPart ?s) 9
      \<and> \<not> inLruGhost (lruPart ?s) 9 \<and> \<not> inLfuGhost (lfuPart ?s) 9"
    and 7: "inLfuMainCache (lfuPart ?s) 1"
    by (simp_all add: ArcCache_defs)
  show ?thesis
    using C10_miss_leaves_state [where c = "LruCache_new 2 (0::int) ''z''" and ?k1.0 = 9
        and f = "LfuCache_new 2 10 (0::int) :: (int, string) LfuCache" and ?k2.0 = 9
        and Hash = nat and h = ?h and ?k3.0 = 9 and i = 1
        and p = "ArcLruPart_new 2 2 :: (int, string) ArcLruPart" and ?k4.0 = 9 and st = False
        and q = "ArcLfuPart_new 2 2 :: (int, string) ArcLfuPart" and ?k5.0 = 9
        and s = ?s and key = 9 and n = 5]
      1 2 3 4 5 6 7
    by blast
qed

end
